theory Spec2Isabelle
  imports Main "HOL-Library.Log_Nat" "HOL-Library.Code_Target_Nat"
begin

section \<open>Go values: strings, integers, float64, time\<close>

text \<open>
  A Go \<^verbatim>\<open>string\<close> is a sequence of bytes: \<^verbatim>\<open>len\<close> counts bytes and \<^verbatim>\<open>s[:n]\<close> slices bytes.
  It is modelled by \<^typ>\<open>string\<close> (a list of 8-bit characters). The source is UTF-8, so
  its Japanese literals are written here as their UTF-8 bytes (\<open>CHR 0x..\<close>).
\<close>

definition hasPrefix :: "string \<Rightarrow> string \<Rightarrow> bool" where
  \<comment> \<open>\<^verbatim>\<open>strings.HasPrefix(s, prefix)\<close>\<close>
  "hasPrefix s p = (take (length p) s = p)"

fun contains :: "string \<Rightarrow> string \<Rightarrow> bool" where
  \<comment> \<open>\<^verbatim>\<open>strings.Contains(s, substr)\<close>\<close>
  "contains [] sub = (sub = [])"
| "contains (c # cs) sub = (hasPrefix (c # cs) sub \<or> contains cs sub)"

fun join :: "string list \<Rightarrow> string \<Rightarrow> string" where
  \<comment> \<open>\<^verbatim>\<open>strings.Join(elems, sep)\<close>\<close>
  "join [] sep = []"
| "join [e] sep = e"
| "join (e # f # es) sep = e @ sep @ join (f # es) sep"

definition repeat :: "string \<Rightarrow> nat \<Rightarrow> string" where
  \<comment> \<open>\<^verbatim>\<open>strings.Repeat(s, count)\<close>\<close>
  "repeat s n = concat (replicate n s)"

definition digitChar :: "nat \<Rightarrow> char" where
  "digitChar d = ''0123456789'' ! d"

fun natDec :: "nat \<Rightarrow> string" where
  \<comment> \<open>the decimal digits of a natural number, most significant first\<close>
  "natDec n = (if n < 10 then [digitChar n] else natDec (n div 10) @ [digitChar (n mod 10)])"

declare natDec.simps [simp del]

definition fmtD :: "int \<Rightarrow> string" where
  \<comment> \<open>the verb \<^verbatim>\<open>%d\<close> of package fmt\<close>
  "fmtD i = (if i < 0 then ''-'' @ natDec (nat (- i)) else natDec (nat i))"

definition appendInt :: "nat \<Rightarrow> nat \<Rightarrow> string" where
  \<comment> \<open>\<^verbatim>\<open>appendInt(b, x, width)\<close> of package time, for \<open>x \<ge> 0\<close>: zero-padded to at least \<open>width\<close>\<close>
  "appendInt x width = replicate (width - length (natDec x)) CHR ''0'' @ natDec x"

definition isDigit :: "char \<Rightarrow> bool" where
  \<comment> \<open>the class \<^verbatim>\<open>\d\<close> of package regexp: an ASCII digit\<close>
  "isDigit c = (48 \<le> (of_char c :: nat) \<and> (of_char c :: nat) \<le> 57)"

definition digitVal :: "char \<Rightarrow> nat" where
  "digitVal c = of_char c - 48"

definition digitsVal :: "string \<Rightarrow> nat" where
  "digitsVal ds = foldl (\<lambda>acc c. 10 * acc + digitVal c) 0 ds"

subsection \<open>float64\<close>

text \<open>
  A finite \<^verbatim>\<open>float64\<close> is a dyadic rational, and every arithmetic operation of Go returns
  the exact result rounded to the nearest representable value, ties to the even mantissa
  (IEEE 754 binary64: 53 bits of mantissa, least exponent \<open>-1022\<close>, subnormals below).
  \<open>fl64\<close> is that rounding.  The exponent is not bounded above here, and there is no
  \<open>+Inf\<close>: the operations are Go's as long as no result reaches \<open>2 ^ 1024\<close>, where Go
  returns \<open>+Inf\<close>.  \<open>parseFloat\<close> refuses such a value as Go does, and the
  theorem on the latency statistics states the range in which the running sum stays below
  \<open>2 ^ 1024\<close> (\<open>foldl_fadd_finite\<close>).  NaN does not arise in the code modelled: its only
  divisions are guarded by a positive count.
\<close>

type_synonym float64 = rat

definition pow2 :: "int \<Rightarrow> rat" where
  "pow2 k = (if 0 \<le> k then 2 ^ nat k else 1 / 2 ^ nat (- k))"

definition roundHalfEven :: "rat \<Rightarrow> int" where
  "roundHalfEven x =
     (let f = \<lfloor>x\<rfloor>; d = x - of_int f
      in if d < 1 / 2 then f else if 1 / 2 < d then f + 1 else if even f then f else f + 1)"

definition binExp :: "rat \<Rightarrow> int" where
  \<comment> \<open>for \<open>x > 0\<close>, the exponent \<open>e\<close> with \<open>2 ^ e \<le> x < 2 ^ (e + 1)\<close>\<close>
  "binExp x =
     (let (p, q) = quotient_of x; d = bitlen p - bitlen q
      in if pow2 d \<le> x then d else d - 1)"

definition fl64 :: "rat \<Rightarrow> float64" where
  "fl64 x =
     (if x = 0 then 0
      else let a = \<bar>x\<bar>; k = max (binExp a) (- 1022) - 52;
               r = of_int (roundHalfEven (a / pow2 k)) * pow2 k
           in if x < 0 then - r else r)"

definition fadd :: "float64 \<Rightarrow> float64 \<Rightarrow> float64" where
  "fadd a b = fl64 (a + b)"

definition fmul :: "float64 \<Rightarrow> float64 \<Rightarrow> float64" where
  "fmul a b = fl64 (a * b)"

definition fdiv :: "float64 \<Rightarrow> float64 \<Rightarrow> float64" where
  \<comment> \<open>every call in the code modelled has \<open>b > 0\<close>\<close>
  "fdiv a b = fl64 (a / b)"

definition float64_of_int :: "int \<Rightarrow> float64" where
  \<comment> \<open>the conversion \<^verbatim>\<open>float64(n)\<close> of an integer\<close>
  "float64_of_int n = fl64 (of_int n)"

definition fmtFixed :: "nat \<Rightarrow> float64 \<Rightarrow> string" where
  \<comment> \<open>the verbs \<^verbatim>\<open>%.1f\<close> and \<^verbatim>\<open>%.2f\<close>: the exact value rounded to \<open>prec\<close> decimals, ties to even\<close>
  "fmtFixed prec x =
     (let n = nat (roundHalfEven (\<bar>x\<bar> * 10 ^ prec))
      in (if x < 0 then ''-'' else '''') @ natDec (n div 10 ^ prec) @
         (if prec = 0 then '''' else ''.'' @ appendInt (n mod 10 ^ prec) prec))"

definition parseFloat :: "string \<Rightarrow> float64 option" where
  \<comment> \<open>\<^verbatim>\<open>strconv.ParseFloat(s, 64)\<close> on the strings the two patterns of \<open>pingHost\<close> capture
     (digits, then optionally a point and digits): the nearest float64, and an error
     (\<^verbatim>\<open>ErrRange\<close>) when that would be infinite.  Every other string is an error here;
     the library accepts further syntax (exponents, hexadecimal), which no capture has.\<close>
  "parseFloat s =
     (let ip = takeWhile isDigit s; r = dropWhile isDigit s;
          fp = (if hasPrefix r ''.'' then drop 1 r else r)
      in if ip = [] \<or> \<not> list_all isDigit fp then None
         else let v = fl64 (of_nat (digitsVal ip) + of_nat (digitsVal fp) / 10 ^ length fp)
              in if v < 2 ^ 1024 then Some v else None)"

subsection \<open>time.Time\<close>

text \<open>
  The code reads a \<^verbatim>\<open>time.Time\<close> only through \<^verbatim>\<open>Format\<close>, with the layouts
  \<^verbatim>\<open>"2006-01-02"\<close>, \<^verbatim>\<open>"15:04:05"\<close> and \<^verbatim>\<open>time.RFC3339\<close>. A time is modelled by the civil
  fields of its local presentation, which is all these layouts print.
\<close>

record time =
  Year :: nat
  Month :: nat
  Day :: nat
  Hour :: nat
  Minute :: nat
  Second :: nat
  ZoneOffset :: int  \<comment> \<open>seconds east of UTC\<close>

definition wf_time :: "time \<Rightarrow> bool" where
  \<comment> \<open>the ranges every \<^verbatim>\<open>time.Time\<close> has\<close>
  "wf_time t = (1 \<le> Month t \<and> Month t \<le> 12 \<and> 1 \<le> Day t \<and> Day t \<le> 31 \<and>
     Hour t < 24 \<and> Minute t < 60 \<and> Second t < 60)"

definition formatDate :: "time \<Rightarrow> string" where
  \<comment> \<open>\<^verbatim>\<open>t.Format("2006-01-02")\<close>\<close>
  "formatDate t = appendInt (Year t) 4 @ ''-'' @ appendInt (Month t) 2 @ ''-'' @ appendInt (Day t) 2"

definition formatClock :: "time \<Rightarrow> string" where
  \<comment> \<open>\<^verbatim>\<open>t.Format("15:04:05")\<close>\<close>
  "formatClock t = appendInt (Hour t) 2 @ '':'' @ appendInt (Minute t) 2 @ '':'' @ appendInt (Second t) 2"

definition formatZone :: "int \<Rightarrow> string" where
  \<comment> \<open>the element \<^verbatim>\<open>Z07:00\<close> of a layout: \<^verbatim>\<open>Z\<close> when the offset is 0; otherwise
     \<^verbatim>\<open>zone := offset / 60\<close> (Go's division truncates towards zero), the sign of \<^verbatim>\<open>zone\<close>,
     and its hours and minutes\<close>
  "formatZone off =
     (if off = 0 then ''Z''
      else let zone = (if off < 0 then - (\<bar>off\<bar> div 60) else off div 60);
               z = \<bar>zone\<bar>
           in (if zone < 0 then ''-'' else ''+'') @ appendInt (nat (z div 60)) 2 @ '':'' @
              appendInt (nat (z mod 60)) 2)"

definition formatRFC3339 :: "time \<Rightarrow> string" where
  \<comment> \<open>\<^verbatim>\<open>t.Format(time.RFC3339)\<close>, the layout \<^verbatim>\<open>"2006-01-02T15:04:05Z07:00"\<close>\<close>
  "formatRFC3339 t = formatDate t @ ''T'' @ formatClock t @ formatZone (ZoneOffset t)"

subsection \<open>time.Duration\<close>

definition fmtFrac :: "nat \<Rightarrow> nat \<Rightarrow> string" where
  \<comment> \<open>\<^verbatim>\<open>fmtFrac\<close> of package time: the fraction of \<open>v / 10 ^ prec\<close> without trailing zeros,
     and nothing at all when the fraction is zero\<close>
  "fmtFrac v prec =
     (let ds = rev (dropWhile (\<lambda>c. c = CHR ''0'') (rev (appendInt (v mod 10 ^ prec) prec)))
      in if ds = [] then [] else ''.'' @ ds)"

definition durationString :: "int \<Rightarrow> string" where
  \<comment> \<open>\<^verbatim>\<open>Duration.String\<close>, which the verb \<^verbatim>\<open>%v\<close> prints; a Duration counts nanoseconds\<close>
  "durationString d =
     (let u = nat \<bar>d\<bar> in
      (if d < 0 then ''-'' else '''') @
      (if u < 1000000000 then
         (if u = 0 then ''0s''
          else if u < 1000 then natDec u @ ''ns''
          else if u < 1000000 then natDec (u div 1000) @ fmtFrac u 3 @ [CHR 0xC2, CHR 0xB5] @ ''s''
          else natDec (u div 1000000) @ fmtFrac u 6 @ ''ms'')
       else
         (let secs = u div 1000000000; mins = secs div 60; hours = mins div 60 in
          (if mins > 0
           then (if hours > 0 then natDec hours @ ''h'' else '''') @ natDec (mins mod 60) @ ''m''
           else '''') @
          natDec (secs mod 60) @ fmtFrac u 9 @ ''s'')))"

section \<open>The literals of the source\<close>

definition ja_time :: string where
  \<comment> \<open>time (the label of the Windows ping output): U+6642 U+9593 (main.go 203)\<close>
  "ja_time =
    [CHR 0xE6, CHR 0x99, CHR 0x82, CHR 0xE9, CHR 0x96, CHR 0x93]"

definition ja_unreachable :: string where
  \<comment> \<open>unreachable: U+5230 U+9054 U+4E0D U+80FD (main.go 259, 266)\<close>
  "ja_unreachable =
    [CHR 0xE5, CHR 0x88, CHR 0xB0, CHR 0xE9, CHR 0x81, CHR 0x94, CHR 0xE4, CHR 0xB8, CHR 0x8D,
     CHR 0xE8, CHR 0x83, CHR 0xBD]"

definition ja_default_gateway :: string where
  \<comment> \<open>default gateway: U+30C7 U+30D5 U+30A9 U+30EB U+30C8 U+30B2 U+30FC U+30C8 U+30A6 U+30A7 U+30A4 (main.go 264, 266)\<close>
  "ja_default_gateway =
    [CHR 0xE3, CHR 0x83, CHR 0x87, CHR 0xE3, CHR 0x83, CHR 0x95, CHR 0xE3, CHR 0x82, CHR 0xA9,
     CHR 0xE3, CHR 0x83, CHR 0xAB, CHR 0xE3, CHR 0x83, CHR 0x88, CHR 0xE3, CHR 0x82, CHR 0xB2,
     CHR 0xE3, CHR 0x83, CHR 0xBC, CHR 0xE3, CHR 0x83, CHR 0x88, CHR 0xE3, CHR 0x82, CHR 0xA6,
     CHR 0xE3, CHR 0x82, CHR 0xA7, CHR 0xE3, CHR 0x82, CHR 0xA4]"

definition ja_not_configured :: string where
  \<comment> \<open>is not set, so the report is written to the console: U+304C U+8A2D U+5B9A U+3055 U+308C U+3066 U+3044 U+306A U+3044 U+305F U+3081 U+3001 U+30EC U+30DD U+30FC U+30C8 U+3092 U+30B3 U+30F3 U+30BD U+30FC U+30EB U+306B U+51FA U+529B U+3057 U+307E U+3059 U+FF1A (main.go 289)\<close>
  "ja_not_configured =
    [CHR 0xE3, CHR 0x81, CHR 0x8C, CHR 0xE8, CHR 0xA8, CHR 0xAD, CHR 0xE5, CHR 0xAE, CHR 0x9A,
     CHR 0xE3, CHR 0x81, CHR 0x95, CHR 0xE3, CHR 0x82, CHR 0x8C, CHR 0xE3, CHR 0x81, CHR 0xA6,
     CHR 0xE3, CHR 0x81, CHR 0x84, CHR 0xE3, CHR 0x81, CHR 0xAA, CHR 0xE3, CHR 0x81, CHR 0x84,
     CHR 0xE3, CHR 0x81, CHR 0x9F, CHR 0xE3, CHR 0x82, CHR 0x81, CHR 0xE3, CHR 0x80, CHR 0x81,
     CHR 0xE3, CHR 0x83, CHR 0xAC, CHR 0xE3, CHR 0x83, CHR 0x9D, CHR 0xE3, CHR 0x83, CHR 0xBC,
     CHR 0xE3, CHR 0x83, CHR 0x88, CHR 0xE3, CHR 0x82, CHR 0x92, CHR 0xE3, CHR 0x82, CHR 0xB3,
     CHR 0xE3, CHR 0x83, CHR 0xB3, CHR 0xE3, CHR 0x82, CHR 0xBD, CHR 0xE3, CHR 0x83, CHR 0xBC,
     CHR 0xE3, CHR 0x83, CHR 0xAB, CHR 0xE3, CHR 0x81, CHR 0xAB, CHR 0xE5, CHR 0x87, CHR 0xBA,
     CHR 0xE5, CHR 0x8A, CHR 0x9B, CHR 0xE3, CHR 0x81, CHR 0x97, CHR 0xE3, CHR 0x81, CHR 0xBE,
     CHR 0xE3, CHR 0x81, CHR 0x99, CHR 0xEF, CHR 0xBC, CHR 0x9A]"

definition emoji_globe :: string where
  \<comment> \<open>globe with meridians: U+1F310 (main.go 332)\<close>
  "emoji_globe =
    [CHR 0xF0, CHR 0x9F, CHR 0x8C, CHR 0x90]"

definition ja_daily_report :: string where
  \<comment> \<open>daily report: U+65E5 U+6B21 U+30EC U+30DD U+30FC U+30C8 (main.go 332, 432)\<close>
  "ja_daily_report =
    [CHR 0xE6, CHR 0x97, CHR 0xA5, CHR 0xE6, CHR 0xAC, CHR 0xA1, CHR 0xE3, CHR 0x83, CHR 0xAC,
     CHR 0xE3, CHR 0x83, CHR 0x9D, CHR 0xE3, CHR 0x83, CHR 0xBC, CHR 0xE3, CHR 0x83, CHR 0x88]"

definition ja_date :: string where
  \<comment> \<open>date: U+65E5 U+4ED8 (main.go 333)\<close>
  "ja_date =
    [CHR 0xE6, CHR 0x97, CHR 0xA5, CHR 0xE4, CHR 0xBB, CHR 0x98]"

definition ja_target :: string where
  \<comment> \<open>target: U+5BFE U+8C61 (main.go 333, 434)\<close>
  "ja_target =
    [CHR 0xE5, CHR 0xAF, CHR 0xBE, CHR 0xE8, CHR 0xB1, CHR 0xA1]"

definition ja_source :: string where
  \<comment> \<open>source: U+9001 U+4FE1 U+5143 (main.go 333, 435)\<close>
  "ja_source =
    [CHR 0xE9, CHR 0x80, CHR 0x81, CHR 0xE4, CHR 0xBF, CHR 0xA1, CHR 0xE5, CHR 0x85, CHR 0x83]"

definition emoji_bar_chart :: string where
  \<comment> \<open>bar chart: U+1F4CA (main.go 337, 432, 459)\<close>
  "emoji_bar_chart =
    [CHR 0xF0, CHR 0x9F, CHR 0x93, CHR 0x8A]"

definition ja_response_time_stats :: string where
  \<comment> \<open>response time statistics: U+5FDC U+7B54 U+6642 U+9593 U+7D71 U+8A08 (main.go 337, 459)\<close>
  "ja_response_time_stats =
    [CHR 0xE5, CHR 0xBF, CHR 0x9C, CHR 0xE7, CHR 0xAD, CHR 0x94, CHR 0xE6, CHR 0x99, CHR 0x82,
     CHR 0xE9, CHR 0x96, CHR 0x93, CHR 0xE7, CHR 0xB5, CHR 0xB1, CHR 0xE8, CHR 0xA8, CHR 0x88]"

definition ja_average :: string where
  \<comment> \<open>average: U+5E73 U+5747 (main.go 338, 460)\<close>
  "ja_average =
    [CHR 0xE5, CHR 0xB9, CHR 0xB3, CHR 0xE5, CHR 0x9D, CHR 0x87]"

definition ja_maximum :: string where
  \<comment> \<open>maximum: U+6700 U+5927 (main.go 338, 461)\<close>
  "ja_maximum =
    [CHR 0xE6, CHR 0x9C, CHR 0x80, CHR 0xE5, CHR 0xA4, CHR 0xA7]"

definition ja_minimum :: string where
  \<comment> \<open>minimum: U+6700 U+5C0F (main.go 338, 462)\<close>
  "ja_minimum =
    [CHR 0xE6, CHR 0x9C, CHR 0x80, CHR 0xE5, CHR 0xB0, CHR 0x8F]"

definition emoji_chart_up :: string where
  \<comment> \<open>chart increasing: U+1F4C8 (main.go 342, 465)\<close>
  "emoji_chart_up =
    [CHR 0xF0, CHR 0x9F, CHR 0x93, CHR 0x88]"

definition ja_reachability_stats :: string where
  \<comment> \<open>reachability statistics: U+5230 U+9054 U+6027 U+7D71 U+8A08 (main.go 342, 465)\<close>
  "ja_reachability_stats =
    [CHR 0xE5, CHR 0x88, CHR 0xB0, CHR 0xE9, CHR 0x81, CHR 0x94, CHR 0xE6, CHR 0x80, CHR 0xA7,
     CHR 0xE7, CHR 0xB5, CHR 0xB1, CHR 0xE8, CHR 0xA8, CHR 0x88]"

definition ja_success_rate :: string where
  \<comment> \<open>success rate: U+6210 U+529F U+7387 (main.go 343, 466)\<close>
  "ja_success_rate =
    [CHR 0xE6, CHR 0x88, CHR 0x90, CHR 0xE5, CHR 0x8A, CHR 0x9F, CHR 0xE7, CHR 0x8E, CHR 0x87]"

definition ja_success_count :: string where
  \<comment> \<open>number of successes: U+6210 U+529F U+56DE U+6570 (main.go 343, 467)\<close>
  "ja_success_count =
    [CHR 0xE6, CHR 0x88, CHR 0x90, CHR 0xE5, CHR 0x8A, CHR 0x9F, CHR 0xE5, CHR 0x9B, CHR 0x9E,
     CHR 0xE6, CHR 0x95, CHR 0xB0]"

definition ja_failure_count :: string where
  \<comment> \<open>number of failures: U+5931 U+6557 U+56DE U+6570 (main.go 343, 468)\<close>
  "ja_failure_count =
    [CHR 0xE5, CHR 0xA4, CHR 0xB1, CHR 0xE6, CHR 0x95, CHR 0x97, CHR 0xE5, CHR 0x9B, CHR 0x9E,
     CHR 0xE6, CHR 0x95, CHR 0xB0]"

definition emoji_stopwatch :: string where
  \<comment> \<open>stopwatch: U+23F1 U+FE0F (main.go 347)\<close>
  "emoji_stopwatch =
    [CHR 0xE2, CHR 0x8F, CHR 0xB1, CHR 0xEF, CHR 0xB8, CHR 0x8F]"

definition ja_monitoring_info :: string where
  \<comment> \<open>monitoring information: U+76E3 U+8996 U+60C5 U+5831 (main.go 347)\<close>
  "ja_monitoring_info =
    [CHR 0xE7, CHR 0x9B, CHR 0xA3, CHR 0xE8, CHR 0xA6, CHR 0x96, CHR 0xE6, CHR 0x83, CHR 0x85,
     CHR 0xE5, CHR 0xA0, CHR 0xB1]"

definition ja_total :: string where
  \<comment> \<open>total: U+7DCF (main.go 348, 469)\<close>
  "ja_total =
    [CHR 0xE7, CHR 0xB7, CHR 0x8F]"

definition ja_count :: string where
  \<comment> \<open>count: U+56DE U+6570 (main.go 348, 469)\<close>
  "ja_count =
    [CHR 0xE5, CHR 0x9B, CHR 0x9E, CHR 0xE6, CHR 0x95, CHR 0xB0]"

definition ja_interval :: string where
  \<comment> \<open>monitoring interval: U+76E3 U+8996 U+9593 U+9694 (main.go 348)\<close>
  "ja_interval =
    [CHR 0xE7, CHR 0x9B, CHR 0xA3, CHR 0xE8, CHR 0xA6, CHR 0x96, CHR 0xE9, CHR 0x96, CHR 0x93,
     CHR 0xE9, CHR 0x9A, CHR 0x94]"

definition emoji_warning :: string where
  \<comment> \<open>warning sign: U+26A0 U+FE0F (main.go 361, 472)\<close>
  "emoji_warning =
    [CHR 0xE2, CHR 0x9A, CHR 0xA0, CHR 0xEF, CHR 0xB8, CHR 0x8F]"

definition ja_unreachable_periods :: string where
  \<comment> \<open>unreachable periods: U+5230 U+9054 U+4E0D U+80FD U+671F U+9593 (main.go 361)\<close>
  "ja_unreachable_periods =
    [CHR 0xE5, CHR 0x88, CHR 0xB0, CHR 0xE9, CHR 0x81, CHR 0x94, CHR 0xE4, CHR 0xB8, CHR 0x8D,
     CHR 0xE8, CHR 0x83, CHR 0xBD, CHR 0xE6, CHR 0x9C, CHR 0x9F, CHR 0xE9, CHR 0x96, CHR 0x93]"

definition emoji_cross :: string where
  \<comment> \<open>cross mark: U+274C (main.go 373)\<close>
  "emoji_cross =
    [CHR 0xE2, CHR 0x9D, CHR 0x8C]"

definition ja_send_error :: string where
  \<comment> \<open>send error: U+9001 U+4FE1 U+30A8 U+30E9 U+30FC (main.go 373)\<close>
  "ja_send_error =
    [CHR 0xE9, CHR 0x80, CHR 0x81, CHR 0xE4, CHR 0xBF, CHR 0xA1, CHR 0xE3, CHR 0x82, CHR 0xA8,
     CHR 0xE3, CHR 0x83, CHR 0xA9, CHR 0xE3, CHR 0x83, CHR 0xBC]"

definition emoji_check :: string where
  \<comment> \<open>check mark: U+2705 (main.go 376)\<close>
  "emoji_check =
    [CHR 0xE2, CHR 0x9C, CHR 0x85]"

definition ja_daily_report_of :: string where
  \<comment> \<open>'s daily report (object): U+306E U+65E5 U+6B21 U+30EC U+30DD U+30FC U+30C8 U+3092 (main.go 376)\<close>
  "ja_daily_report_of =
    [CHR 0xE3, CHR 0x81, CHR 0xAE, CHR 0xE6, CHR 0x97, CHR 0xA5, CHR 0xE6, CHR 0xAC, CHR 0xA1,
     CHR 0xE3, CHR 0x83, CHR 0xAC, CHR 0xE3, CHR 0x83, CHR 0x9D, CHR 0xE3, CHR 0x83, CHR 0xBC,
     CHR 0xE3, CHR 0x83, CHR 0x88, CHR 0xE3, CHR 0x82, CHR 0x92]"

definition ja_was_sent :: string where
  \<comment> \<open>was sent to: U+306B U+9001 U+4FE1 U+3057 U+307E U+3057 U+305F (main.go 376)\<close>
  "ja_was_sent =
    [CHR 0xE3, CHR 0x81, CHR 0xAB, CHR 0xE9, CHR 0x80, CHR 0x81, CHR 0xE4, CHR 0xBF, CHR 0xA1,
     CHR 0xE3, CHR 0x81, CHR 0x97, CHR 0xE3, CHR 0x81, CHR 0xBE, CHR 0xE3, CHR 0x81, CHR 0x97,
     CHR 0xE3, CHR 0x81, CHR 0x9F]"

definition ja_none :: string where
  \<comment> \<open>none: U+306A U+3057 (main.go 383)\<close>
  "ja_none =
    [CHR 0xE3, CHR 0x81, CHR 0xAA, CHR 0xE3, CHR 0x81, CHR 0x97]"

definition ja_others :: string where
  \<comment> \<open>other: U+4ED6 (main.go 397, 475)\<close>
  "ja_others =
    [CHR 0xE4, CHR 0xBB, CHR 0x96]"

definition ja_items :: string where
  \<comment> \<open>items: U+4EF6 (main.go 397, 475)\<close>
  "ja_items =
    [CHR 0xE4, CHR 0xBB, CHR 0xB6]"

definition ja_unreachable_times :: string where
  \<comment> \<open>unreachable times: U+5230 U+9054 U+4E0D U+80FD U+6642 U+9593 (main.go 472)\<close>
  "ja_unreachable_times =
    [CHR 0xE5, CHR 0x88, CHR 0xB0, CHR 0xE9, CHR 0x81, CHR 0x94, CHR 0xE4, CHR 0xB8, CHR 0x8D,
     CHR 0xE8, CHR 0x83, CHR 0xBD, CHR 0xE6, CHR 0x99, CHR 0x82, CHR 0xE9, CHR 0x96, CHR 0x93]"

definition ja_sending_stats :: string where
  \<comment> \<open>sending the current statistics: U+73FE U+5728 U+306E U+7D71 U+8A08 U+3092 U+9001 U+4FE1 U+4E2D (main.go 494)\<close>
  "ja_sending_stats =
    [CHR 0xE7, CHR 0x8F, CHR 0xBE, CHR 0xE5, CHR 0x9C, CHR 0xA8, CHR 0xE3, CHR 0x81, CHR 0xAE,
     CHR 0xE7, CHR 0xB5, CHR 0xB1, CHR 0xE8, CHR 0xA8, CHR 0x88, CHR 0xE3, CHR 0x82, CHR 0x92,
     CHR 0xE9, CHR 0x80, CHR 0x81, CHR 0xE4, CHR 0xBF, CHR 0xA1, CHR 0xE4, CHR 0xB8, CHR 0xAD]"

section \<open>Data model\<close>

record Config =
  DiscordWebhookURL :: string

record PingResult =
  Timestamp :: time
  ResponseTime :: float64
  Success :: bool

text \<open>
  \<open>stopChan\<close> is a channel of \<^verbatim>\<open>struct{}\<close> on which nothing is ever sent: all the code does
  with it is close it (\<open>Stop\<close>) and wait for that (\<open>pingLoop\<close>), so its state is open or
  closed. The mutex is not modelled: the functions below run one after the other.
\<close>

datatype chan = ChanOpen | ChanClosed

record PingMonitor =
  targetIP :: string
  pingInterval :: int  \<comment> \<open>a \<^verbatim>\<open>time.Duration\<close>: nanoseconds\<close>
  pingResults :: "PingResult list"
  unreachableTimes :: "time list"
  running :: bool
  stopChan :: chan
  config :: Config
  defaultGateway :: string
  localIP :: string

record EmbedField =
  Name :: string
  Value :: string
  Inline :: bool

record EmbedFooter =
  Text :: string

record DiscordEmbed =
  Title :: string
  Description :: string
  Color :: int
  Fields :: "EmbedField list"
  Timestamp :: string
  Footer :: EmbedFooter

record DiscordMessage =
  Embeds :: "DiscordEmbed list"

section \<open>Effects and the environment\<close>

text \<open>
  What a function does to the outside is the list of its events, in order: a call of
  \<^verbatim>\<open>fmt.Printf\<close> or \<^verbatim>\<open>fmt.Println\<close> with the text it writes, the start of an external
  command with its argument vector, and a call of \<^verbatim>\<open>http.Post\<close> with the URL and the
  message whose JSON encoding is the body.  What the outside answers is an argument:
  the result of a command (\<open>cmd_run\<close>), the response to a POST (\<open>http_result\<close>), the
  value of \<^verbatim>\<open>time.Now()\<close>.  A Go \<^verbatim>\<open>error\<close> is its message; \<^verbatim>\<open>nil\<close> is \<open>None\<close>.
\<close>

datatype event =
    Print string
  | Exec "string list"
  | HttpPost string DiscordMessage

datatype http_result =
    TransportError string  \<comment> \<open>\<^verbatim>\<open>http.Post\<close> returned an error\<close>
  | Response int string  \<comment> \<open>status code, and the body as \<^verbatim>\<open>io.ReadAll\<close> read it\<close>

record cmd_run =
  runOutput :: string  \<comment> \<open>standard output, as \<^verbatim>\<open>cmd.Output()\<close> returns it\<close>
  runErr :: "string option"  \<comment> \<open>the error of \<^verbatim>\<open>cmd.Output()\<close>\<close>
  runDuration :: int  \<comment> \<open>\<^verbatim>\<open>time.Since(start)\<close>, in nanoseconds\<close>

record report_env =
  clock :: time  \<comment> \<open>\<^verbatim>\<open>time.Now()\<close> at the embed's timestamp\<close>
  response :: http_result

record tick =
  now :: time  \<comment> \<open>the value received from \<^verbatim>\<open>ticker.C\<close>\<close>
  targetRun :: cmd_run  \<comment> \<open>the ping of \<open>targetIP\<close>\<close>
  gatewayRun :: cmd_run  \<comment> \<open>the ping of \<open>defaultGateway\<close>, when the code makes it\<close>
  reportEnv :: report_env  \<comment> \<open>for the daily report, when the code sends it\<close>

section \<open>pingHost\<close>

definition pingCommand :: "string \<Rightarrow> string \<Rightarrow> string list" where
  "pingCommand goos host =
     (if goos = ''windows'' then [''ping'', ''-n'', ''1'', ''-w'', ''3000'', host]
      else [''ping'', ''-c'', ''1'', ''-W'', ''3'', host])"

text \<open>
  \<^verbatim>\<open>FindStringSubmatch\<close> returns the leftmost match, and among the matches that start
  there the one a backtracking search finds first (greedy operators take as much as
  they can).  \<open>linuxMatchAt\<close> and \<open>windowsMatchAt\<close> say whether the pattern matches
  at the very start of a string, and give the text of its group; \<open>findSubmatch\<close> tries
  every start from the left.  In both patterns the group is followed by something that a
  shorter group cannot help to match, so the group is the greedy one.
\<close>

definition sameLine :: "string \<Rightarrow> string" where
  \<comment> \<open>what \<^verbatim>\<open>.*\<close> can run over: \<^verbatim>\<open>.\<close> matches every character but a newline\<close>
  "sameLine s = takeWhile (\<lambda>c. c \<noteq> CHR 0x0A) s"

definition linuxMatchAt :: "string \<Rightarrow> string option" where
  \<comment> \<open>the pattern \<^verbatim>\<open>time=(\d+\.?\d*).*ms\<close>\<close>
  "linuxMatchAt s =
     (if hasPrefix s ''time='' then
        let r = drop 5 s;
            d1 = takeWhile isDigit r; r1 = dropWhile isDigit r;
            dot = (if hasPrefix r1 ''.'' then ''.'' else '''');
            r2 = drop (length dot) r1;
            d2 = takeWhile isDigit r2; r3 = dropWhile isDigit r2
        in if d1 \<noteq> [] \<and> contains (sameLine r3) ''ms'' then Some (d1 @ dot @ d2) else None
      else None)"

definition windowsMatchAt :: "string \<Rightarrow> string option" where
  \<comment> \<open>the pattern \<^verbatim>\<open>[<>=]*(\d+)ms\<close> after the two characters \<open>ja_time\<close>\<close>
  "windowsMatchAt s =
     (if hasPrefix s ja_time then
        let r = dropWhile (\<lambda>c. c \<in> set ''<>='') (drop (length ja_time) s);
            d = takeWhile isDigit r; r1 = dropWhile isDigit r
        in if d \<noteq> [] \<and> hasPrefix r1 ''ms'' then Some d else None
      else None)"

fun findSubmatch :: "(string \<Rightarrow> string option) \<Rightarrow> string \<Rightarrow> string option" where
  "findSubmatch matchAt [] = matchAt []"
| "findSubmatch matchAt (c # cs) =
     (case matchAt (c # cs) of Some g \<Rightarrow> Some g | None \<Rightarrow> findSubmatch matchAt cs)"

definition parseLatency :: "string \<Rightarrow> string \<Rightarrow> float64 option" where
  \<comment> \<open>main.go 201-216: the latency read from the output, when the pattern matches and
     its group parses\<close>
  "parseLatency goos out =
     (case findSubmatch (if goos = ''windows'' then windowsMatchAt else linuxMatchAt) out of
        None \<Rightarrow> None
      | Some g \<Rightarrow> parseFloat g)"

definition pingHost :: "string \<Rightarrow> string \<Rightarrow> cmd_run \<Rightarrow> event list \<times> float64 \<times> string option" where
  \<comment> \<open>main.go 184-220; \<open>goos\<close> is \<^verbatim>\<open>runtime.GOOS\<close>\<close>
  "pingHost goos host run =
     (let ev = [Exec (pingCommand goos host)] in
      case runErr run of
        Some e \<Rightarrow> (ev, 0, Some e)
      | None \<Rightarrow>
          (case parseLatency goos (runOutput run) of
             Some ms \<Rightarrow> (ev, ms, None)
           | None \<Rightarrow> (ev, fdiv (float64_of_int (runDuration run)) 1000000, None)))"

section \<open>The daily report\<close>

definition totalPings :: "PingMonitor \<Rightarrow> int" where
  \<comment> \<open>main.go 295 and 437\<close>
  "totalPings pm = int (length (pingResults pm)) + int (length (unreachableTimes pm))"

definition successRate :: "PingMonitor \<Rightarrow> float64" where
  \<comment> \<open>main.go 296-299 and 438-441, the same statements in both functions\<close>
  "successRate pm =
     (if totalPings pm > 0
      then fmul (fdiv (float64_of_int (int (length (pingResults pm)))) (float64_of_int (totalPings pm))) 100
      else 0)"

fun statsLoop :: "PingResult list \<Rightarrow> float64 \<times> float64 \<times> float64 \<Rightarrow> float64 \<times> float64 \<times> float64" where
  \<comment> \<open>the loop of main.go 307-315 and 448-456 over \<open>(sum, maxTime, minTime)\<close>; \<open>sumTime\<close> is the variable \<^verbatim>\<open>sum\<close>\<close>
  "statsLoop [] (sumTime, maxTime, minTime) = (sumTime, maxTime, minTime)"
| "statsLoop (result # rest) (sumTime, maxTime, minTime) =
     statsLoop rest
       (fadd sumTime (ResponseTime result),
        (if ResponseTime result > maxTime then ResponseTime result else maxTime),
        (if ResponseTime result < minTime then ResponseTime result else minTime))"

definition latencyStats :: "PingResult list \<Rightarrow> float64 \<times> float64 \<times> float64" where
  \<comment> \<open>main.go 303-316 and 444-457, for a list that is not empty: \<open>(avgTime, maxTime, minTime)\<close>\<close>
  "latencyStats results =
     (case statsLoop results (0, ResponseTime (hd results), ResponseTime (hd results)) of
        (sumTime, maxTime, minTime) \<Rightarrow>
          (fdiv sumTime (float64_of_int (int (length results))), maxTime, minTime))"

definition reportStats :: "PingMonitor \<Rightarrow> float64 \<times> float64 \<times> float64" where
  \<comment> \<open>main.go 301-317: the three variables start at zero\<close>
  "reportStats pm =
     (if length (pingResults pm) > 0 then latencyStats (pingResults pm) else (0, 0, 0))"

definition reportColor :: "float64 \<Rightarrow> int" where
  \<comment> \<open>main.go 322-328\<close>
  "reportColor rate =
     (let color = 0x00ff00;
          color = (if rate < 99 then 0xff9900 else color);
          color = (if rate < 95 then 0xff0000 else color)
      in color)"

fun periodsLoop :: "nat \<Rightarrow> time list \<Rightarrow> string list \<Rightarrow> string list" where
  \<comment> \<open>the loop of main.go 388-393, from index \<open>i\<close> on\<close>
  "periodsLoop i [] periods = periods"
| "periodsLoop i (t # ts) periods =
     (if i \<ge> 10 then periods else periodsLoop (i + 1) ts (periods @ [formatClock t]))"

definition moreSuffix :: "int \<Rightarrow> string" where
  \<comment> \<open>\<^verbatim>\<open>fmt.Sprintf("\n... <ja_others>%d<ja_items>", n)\<close>, main.go 397\<close>
  "moreSuffix n = ''\<newline>... '' @ ja_others @ fmtD n @ ja_items"

definition formatUnreachablePeriods :: "PingMonitor \<Rightarrow> string" where
  \<comment> \<open>main.go 381-406\<close>
  "formatUnreachablePeriods pm =
     (if length (unreachableTimes pm) = 0 then ja_none
      else
        let periods = periodsLoop 0 (unreachableTimes pm) [];
            result = join periods ''\<newline>'';
            result = (if length (unreachableTimes pm) > 10
                      then result @ moreSuffix (int (length (unreachableTimes pm)) - 10)
                      else result);
            result = (if length result > 1024 then take 1020 result @ ''...'' else result)
        in result)"

definition dailyEmbed :: "PingMonitor \<Rightarrow> string \<Rightarrow> time \<Rightarrow> DiscordEmbed" where
  \<comment> \<open>main.go 294-365: the embed that \<open>sendDailyReport\<close> builds\<close>
  "dailyEmbed pm reportDate timeNow =
     (let rate = successRate pm;
          (avgTime, maxTime, minTime) = reportStats pm;
          unreachableCount = int (length (unreachableTimes pm));
          embed = \<lparr>
            Title = emoji_globe @ '' Ping Monitor '' @ ja_daily_report,
            Description = ''**'' @ ja_date @ ''**: '' @ reportDate @ ''\<newline>**'' @ ja_target @
              ''**: Google (8.8.8.8)\<newline>**'' @ ja_source @ ''**: '' @ localIP pm,
            Color = reportColor rate,
            Fields = [
              \<lparr>Name = emoji_bar_chart @ '' '' @ ja_response_time_stats,
               Value = ''**'' @ ja_average @ ''**: '' @ fmtFixed 1 avgTime @ ''ms\<newline>**'' @
                 ja_maximum @ ''**: '' @ fmtFixed 1 maxTime @ ''ms\<newline>**'' @
                 ja_minimum @ ''**: '' @ fmtFixed 1 minTime @ ''ms'',
               Inline = True\<rparr>,
              \<lparr>Name = emoji_chart_up @ '' '' @ ja_reachability_stats,
               Value = ''**'' @ ja_success_rate @ ''**: '' @ fmtFixed 2 rate @ ''%\<newline>**'' @
                 ja_success_count @ ''**: '' @ fmtD (int (length (pingResults pm))) @ ''\<newline>**'' @
                 ja_failure_count @ ''**: '' @ fmtD unreachableCount,
               Inline = True\<rparr>,
              \<lparr>Name = emoji_stopwatch @ '' '' @ ja_monitoring_info,
               Value = ''**'' @ ja_total @ ''ping'' @ ja_count @ ''**: '' @ fmtD (totalPings pm) @
                 ''\<newline>**'' @ ja_interval @ ''**: '' @ durationString (pingInterval pm),
               Inline = True\<rparr>],
            Timestamp = formatRFC3339 timeNow,
            Footer = \<lparr>Text = ''Ping Monitor by Go''\<rparr>\<rparr>
      in if unreachableCount > 0
         then embed\<lparr>Fields := Fields embed @
                [\<lparr>Name = emoji_warning @ '' '' @ ja_unreachable_periods,
                  Value = formatUnreachablePeriods pm,
                  Inline = False\<rparr>]\<rparr>
         else embed)"

definition sendToDiscord :: "http_result \<Rightarrow> PingMonitor \<Rightarrow> DiscordMessage \<Rightarrow> event list \<times> string option" where
  \<comment> \<open>main.go 409-427. \<^verbatim>\<open>json.Marshal\<close> does not fail on a message of strings, integers
     and booleans, so the one call of \<^verbatim>\<open>http.Post\<close> is always made. The status
     \<^verbatim>\<open>http.StatusNoContent\<close> is 204.\<close>
  "sendToDiscord resp pm message =
     ([HttpPost (DiscordWebhookURL (config pm)) message],
      case resp of
        TransportError e \<Rightarrow> Some e
      | Response statusCode body \<Rightarrow>
          if statusCode \<noteq> 204
          then Some (''Discord API error: '' @ fmtD statusCode @ '' - '' @ body)
          else None)"

fun printTimesLoop :: "nat \<Rightarrow> int \<Rightarrow> time list \<Rightarrow> event list" where
  \<comment> \<open>the loop of main.go 473-479, from index \<open>i\<close> on; \<open>n\<close> is \<^verbatim>\<open>len(pm.unreachableTimes)\<close>\<close>
  "printTimesLoop i n [] = []"
| "printTimesLoop i n (t # ts) =
     (if i \<ge> 10 then [Print (''  ... '' @ ja_others @ fmtD (n - 10) @ ja_items @ ''\<newline>'')]
      else Print (''  '' @ formatClock t @ ''\<newline>'') # printTimesLoop (i + 1) n ts)"

definition printDailyReport :: "PingMonitor \<Rightarrow> string \<Rightarrow> event list" where
  \<comment> \<open>main.go 430-483\<close>
  "printDailyReport pm reportDate =
     [Print (''\<newline>'' @ repeat ''='' 50 @ ''\<newline>''),
      Print (emoji_bar_chart @ '' Ping Monitor '' @ ja_daily_report @ '' - '' @ reportDate @ ''\<newline>''),
      Print (repeat ''='' 50 @ ''\<newline>''),
      Print (ja_target @ '': Google (8.8.8.8)\<newline>''),
      Print (ja_source @ '': '' @ localIP pm @ ''\<newline>'')] @
     (if length (pingResults pm) > 0 then
        (case latencyStats (pingResults pm) of
           (avgTime, maxTime, minTime) \<Rightarrow>
             [Print (''\<newline>'' @ emoji_bar_chart @ '' '' @ ja_response_time_stats @ '':\<newline>''),
              Print (''  '' @ ja_average @ '': '' @ fmtFixed 1 avgTime @ ''ms\<newline>''),
              Print (''  '' @ ja_maximum @ '': '' @ fmtFixed 1 maxTime @ ''ms\<newline>''),
              Print (''  '' @ ja_minimum @ '': '' @ fmtFixed 1 minTime @ ''ms\<newline>'')])
      else []) @
     [Print (''\<newline>'' @ emoji_chart_up @ '' '' @ ja_reachability_stats @ '':\<newline>''),
      Print (''  '' @ ja_success_rate @ '': '' @ fmtFixed 2 (successRate pm) @ ''%\<newline>''),
      Print (''  '' @ ja_success_count @ '': '' @ fmtD (int (length (pingResults pm))) @ ''\<newline>''),
      Print (''  '' @ ja_failure_count @ '': '' @ fmtD (int (length (unreachableTimes pm))) @ ''\<newline>''),
      Print (''  '' @ ja_total @ ''ping'' @ ja_count @ '': '' @ fmtD (totalPings pm) @ ''\<newline>'')] @
     (if length (unreachableTimes pm) > 0 then
        Print (''\<newline>'' @ emoji_warning @ '' '' @ ja_unreachable_times @ '':\<newline>'') #
        printTimesLoop 0 (int (length (unreachableTimes pm))) (unreachableTimes pm)
      else []) @
     [Print (repeat ''='' 50 @ ''\<newline>\<newline>'')]"

definition notConfigured :: "PingMonitor \<Rightarrow> bool" where
  \<comment> \<open>the condition of main.go 288\<close>
  "notConfigured pm =
     (DiscordWebhookURL (config pm) = '''' \<or> contains (DiscordWebhookURL (config pm)) ''YOUR_WEBHOOK'')"

definition sendDailyReport :: "report_env \<Rightarrow> PingMonitor \<Rightarrow> string \<Rightarrow> event list" where
  \<comment> \<open>main.go 284-378. It reads \<open>pm\<close> and writes none of its fields.\<close>
  "sendDailyReport env pm reportDate =
     (if notConfigured pm then
        Print (''Discord Webhook URL'' @ ja_not_configured @ ''\<newline>'') # printDailyReport pm reportDate
      else
        let message = \<lparr>Embeds = [dailyEmbed pm reportDate (clock env)]\<rparr> in
        case sendToDiscord (response env) pm message of
          (ev, Some e) \<Rightarrow>
            ev @ Print (emoji_cross @ '' Discord'' @ ja_send_error @ '': '' @ e @ ''\<newline>'') #
            printDailyReport pm reportDate
        | (ev, None) \<Rightarrow>
            ev @ [Print (emoji_check @ '' '' @ reportDate @ ja_daily_report_of @ ''Discord'' @
                    ja_was_sent @ ''\<newline>'')])"

section \<open>The monitoring loop and the shutdown\<close>

definition resetDailyData :: "PingMonitor \<Rightarrow> PingMonitor" where
  \<comment> \<open>main.go 276-281\<close>
  "resetDailyData pm = pm\<lparr>pingResults := [], unreachableTimes := []\<rparr>"

definition dayChange :: "tick \<Rightarrow> PingMonitor \<times> string \<Rightarrow> event list \<times> PingMonitor \<times> string" where
  \<comment> \<open>main.go 236-243: the first part of the loop body, on \<open>(pm, lastDay)\<close>\<close>
  "dayChange tk s =
     (case s of (pm, lastDay) \<Rightarrow>
        let currentDate = formatDate (now tk) in
        if currentDate \<noteq> lastDay \<and> length (pingResults pm) > 0
        then (sendDailyReport (reportEnv tk) pm lastDay, resetDailyData pm, currentDate)
        else ([], pm, lastDay))"

definition probe :: "string \<Rightarrow> tick \<Rightarrow> PingMonitor \<Rightarrow> event list \<times> PingMonitor" where
  \<comment> \<open>main.go 245-270: the second part of the loop body\<close>
  "probe goos tk pm =
     (case pingHost goos (targetIP pm) (targetRun tk) of
        (ev, responseTime, None) \<Rightarrow>
          (ev @ [Print (formatClock (now tk) @ '' - Google ping: '' @ fmtFixed 1 responseTime @ ''ms\<newline>'')],
           pm\<lparr>pingResults := pingResults pm @
                [\<lparr>PingResult.Timestamp = now tk, ResponseTime = responseTime, Success = True\<rparr>]\<rparr>)
      | (ev, responseTime, Some e) \<Rightarrow>
          (ev @ [Print (formatClock (now tk) @ '' - Google'' @ ja_unreachable @ ''\<newline>'')] @
           (if defaultGateway pm \<noteq> '''' then
              (case pingHost goos (defaultGateway pm) (gatewayRun tk) of
                 (gwEv, gwResponse, None) \<Rightarrow>
                   gwEv @ [Print (''  -> '' @ ja_default_gateway @ ''('' @ defaultGateway pm @ ''): '' @
                             fmtFixed 1 gwResponse @ ''ms\<newline>'')]
               | (gwEv, gwResponse, Some gwErr) \<Rightarrow>
                   gwEv @ [Print (''  -> '' @ ja_default_gateway @ ''('' @ defaultGateway pm @ ''): '' @
                             ja_unreachable @ ''\<newline>'')])
            else []),
           pm\<lparr>unreachableTimes := unreachableTimes pm @ [now tk]\<rparr>))"

definition pingLoop_tick :: "string \<Rightarrow> tick \<Rightarrow> PingMonitor \<times> string \<Rightarrow> event list \<times> PingMonitor \<times> string" where
  \<comment> \<open>main.go 235-270: the loop body for one value of the ticker\<close>
  "pingLoop_tick goos tk s =
     (case dayChange tk s of
        (ev1, pm1, lastDay1) \<Rightarrow>
          (case probe goos tk pm1 of (ev2, pm2) \<Rightarrow> (ev1 @ ev2, pm2, lastDay1)))"

fun pingLoop :: "string \<Rightarrow> tick list \<Rightarrow> PingMonitor \<times> string \<Rightarrow> event list \<times> PingMonitor \<times> string" where
  \<comment> \<open>main.go 231-272: the loop over the ticks that arrive before \<open>stopChan\<close> is closed\<close>
  "pingLoop goos [] s = ([], s)"
| "pingLoop goos (tk # tks) s =
     (case pingLoop_tick goos tk s of
        (ev, s') \<Rightarrow> (case pingLoop goos tks s' of (evs, s'') \<Rightarrow> (ev @ evs, s'')))"

datatype panic = CloseOfClosedChannel

definition Stop :: "time \<Rightarrow> report_env \<Rightarrow> PingMonitor \<Rightarrow> event list \<times> (panic + PingMonitor)" where
  \<comment> \<open>main.go 486-497. \<open>today\<close> is \<^verbatim>\<open>time.Now()\<close> at line 495. Closing a channel that is
     closed already panics.\<close>
  "Stop today env pm =
     (let pm = pm\<lparr>running := False\<rparr> in
      case stopChan pm of
        ChanClosed \<Rightarrow> ([], Inl CloseOfClosedChannel)
      | ChanOpen \<Rightarrow>
          let pm = pm\<lparr>stopChan := ChanClosed\<rparr> in
          if length (pingResults pm) > 0 \<or> length (unreachableTimes pm) > 0
          then (Print (ja_sending_stats @ ''...\<newline>'') # sendDailyReport env pm (formatDate today),
                Inr pm)
          else ([], Inr pm))"

section \<open>The specification's words\<close>

definition spec_successRate :: "nat \<Rightarrow> nat \<Rightarrow> rat" where
  \<comment> \<open>the success rate as the specification words it: the quotient
     successes / (successes + failures), an exact rational number, and 0 when there is no
     sample\<close>
  "spec_successRate successes failures =
     (if 0 < successes + failures then of_nat successes / of_nat (successes + failures) else 0)"

definition failureLines :: "time list \<Rightarrow> string list" where
  \<comment> \<open>the failure-periods block as the specification words it: the failure timestamps
     (time of day), at most 10 of them, then a line that counts the rest when there are more\<close>
  "failureLines ts =
     map formatClock (take 10 ts) @
     (if 10 < length ts then [''... '' @ ja_others @ fmtD (int (length ts) - 10) @ ja_items] else [])"

fun isHttpPost :: "event \<Rightarrow> bool" where
  \<comment> \<open>the events that are network calls\<close>
  "isHttpPost (HttpPost url message) = True"
| "isHttpPost ev = False"

fun printed :: "event \<Rightarrow> string \<Rightarrow> bool" where
  \<comment> \<open>the event prints a line in which the text \<open>w\<close> occurs\<close>
  "printed (Print s) w = contains s w"
| "printed ev w = False"

definition consoleShows :: "event list \<Rightarrow> string \<Rightarrow> bool" where
  \<comment> \<open>the text \<open>w\<close> is present in what was printed\<close>
  "consoleShows evs w = list_ex (\<lambda>ev. printed ev w) evs"

section \<open>Example inputs\<close>

text \<open>Concrete values at which the theorems below are instantiated.\<close>

definition ex_clock1 :: time where
  "ex_clock1 =
     \<lparr>Year = 2024, Month = 1, Day = 1, Hour = 23, Minute = 59, Second = 59, ZoneOffset = 32400\<rparr>"

definition ex_clock2 :: time where
  "ex_clock2 =
     \<lparr>Year = 2024, Month = 1, Day = 2, Hour = 0, Minute = 0, Second = 0, ZoneOffset = 32400\<rparr>"

definition ex_pm :: PingMonitor where
  \<comment> \<open>the monitor as \<open>NewPingMonitor\<close> makes it, with no webhook configured\<close>
  "ex_pm =
     \<lparr>targetIP = ''8.8.8.8'', pingInterval = 1000000000, pingResults = [], unreachableTimes = [],
      running = True, stopChan = ChanOpen, config = \<lparr>DiscordWebhookURL = ''''\<rparr>,
      defaultGateway = ''192.168.1.1'', localIP = ''192.168.1.100''\<rparr>"

definition ex_run_unparsed :: cmd_run where
  \<comment> \<open>a ping that exits with status 0 and prints no latency\<close>
  "ex_run_unparsed =
     \<lparr>runOutput = ''1 packets transmitted, 1 received\<newline>'', runErr = None,
      runDuration = 12000000\<rparr>"

definition ex_run_failed :: cmd_run where
  \<comment> \<open>a ping that times out\<close>
  "ex_run_failed = \<lparr>runOutput = '''', runErr = Some ''exit status 1'', runDuration = 3000000000\<rparr>"

definition ex_env :: report_env where
  "ex_env = \<lparr>clock = ex_clock2, response = Response 204 ''''\<rparr>"

definition ex_env_500 :: report_env where
  "ex_env_500 = \<lparr>clock = ex_clock2, response = Response 500 ''Internal Server Error''\<rparr>"

definition ex_tick2 :: tick where
  \<comment> \<open>the first tick of 2024-01-02; the target and the gateway do not answer\<close>
  "ex_tick2 =
     \<lparr>now = ex_clock2, targetRun = ex_run_failed, gatewayRun = ex_run_failed, reportEnv = ex_env\<rparr>"

definition ex_pm_failures_only :: PingMonitor where
  \<comment> \<open>a day on which every probe failed: here, the one probe of 23:59:59\<close>
  "ex_pm_failures_only = ex_pm\<lparr>unreachableTimes := [ex_clock1]\<rparr>"

definition ex_pm_stopped :: PingMonitor where
  "ex_pm_stopped = ex_pm_failures_only\<lparr>running := False, stopChan := ChanClosed\<rparr>"

definition ex_pm_hook :: PingMonitor where
  "ex_pm_hook =
     ex_pm_failures_only\<lparr>config := \<lparr>DiscordWebhookURL = ''https://discord.com/api/webhooks/1/token''\<rparr>\<rparr>"

definition ex_pm_placeholder :: PingMonitor where
  \<comment> \<open>the URL of the README's sample configuration\<close>
  "ex_pm_placeholder =
     ex_pm_failures_only\<lparr>config :=
       \<lparr>DiscordWebhookURL = ''https://discord.com/api/webhooks/YOUR_WEBHOOK_ID/YOUR_WEBHOOK_TOKEN''\<rparr>\<rparr>"

definition ex_pm_spec :: PingMonitor where
  \<comment> \<open>the example of the specification: latencies 10.0, 20.0 and 30.0 ms, and one failure\<close>
  "ex_pm_spec =
     ex_pm\<lparr>pingResults :=
            [\<lparr>PingResult.Timestamp = ex_clock1, ResponseTime = 10, Success = True\<rparr>,
             \<lparr>PingResult.Timestamp = ex_clock1, ResponseTime = 20, Success = True\<rparr>,
             \<lparr>PingResult.Timestamp = ex_clock1, ResponseTime = 30, Success = True\<rparr>],
          unreachableTimes := [ex_clock1]\<rparr>"

definition ex_sample :: PingResult where
  \<comment> \<open>a latency of 1.15 ms: the float64 nearest to 1.15 is \<open>5179139571476070 / 2 ^ 52\<close>\<close>
  "ex_sample =
     \<lparr>PingResult.Timestamp = ex_clock1, ResponseTime = 5179139571476070 / 4503599627370496,
      Success = True\<rparr>"

definition ex_pm_six :: PingMonitor where
  \<comment> \<open>six probes, each answered in 1.15 ms\<close>
  "ex_pm_six = ex_pm\<lparr>pingResults := replicate 6 ex_sample\<rparr>"

definition ex_pm_7_of_25 :: PingMonitor where
  \<comment> \<open>7 successes and 18 failures\<close>
  "ex_pm_7_of_25 =
     ex_pm\<lparr>pingResults := replicate 7 \<lparr>PingResult.Timestamp = ex_clock1, ResponseTime = 10, Success = True\<rparr>,
          unreachableTimes := replicate 18 ex_clock1\<rparr>"

definition ex_pm_23_of_160 :: PingMonitor where
  \<comment> \<open>23 successes and 137 failures\<close>
  "ex_pm_23_of_160 =
     ex_pm\<lparr>pingResults := replicate 23 \<lparr>PingResult.Timestamp = ex_clock1, ResponseTime = 10, Success = True\<rparr>,
          unreachableTimes := replicate 137 ex_clock1\<rparr>"

definition ex_pm_twelve :: PingMonitor where
  \<comment> \<open>twelve failures, at 23:59:00, 23:59:01, ..., 23:59:11\<close>
  "ex_pm_twelve = ex_pm\<lparr>unreachableTimes := map (\<lambda>s. ex_clock1\<lparr>Second := s\<rparr>) [0..<12]\<rparr>"

section \<open>Auxiliary facts\<close>

text \<open>
  The simplifier's procedure that turns the set of a list expression into a comprehension
  fails on lists built with \<open>case\<close> and \<open>if\<close>, as \<open>printDailyReport\<close> is; it is not needed.
\<close>

declare TrueI [simproc del: list_to_set_comprehension]

subsection \<open>float64\<close>

lemma fl64_examples:
  "fl64 (1 / 10) = 3602879701896397 / 2 ^ 55"
  "fl64 (1 / 3) = 6004799503160661 / 2 ^ 54"
  "fl64 (2 ^ 53 + 1) = 2 ^ 53"
  "fl64 (2 ^ 53 + 3) = 2 ^ 53 + 4"
  "fadd (fadd (fl64 (1 / 10)) (fl64 (1 / 10))) (fl64 (1 / 10)) = 5404319552844596 / 2 ^ 54"
  "float64_of_int 1000000 = 1000000"
  by code_simp+

lemma pow2_pos: "0 < pow2 k"
  by (simp add: pow2_def)

lemma roundHalfEven_nonneg: "0 \<le> x \<Longrightarrow> 0 \<le> roundHalfEven x"
  by (auto simp: roundHalfEven_def Let_def)

lemma fl64_nonneg: "0 \<le> x \<Longrightarrow> 0 \<le> fl64 x"
proof -
  assume x: "0 \<le> x"
  have "0 \<le> (of_int (roundHalfEven (\<bar>x\<bar> / pow2 k)) :: rat) * pow2 k" for k
    using pow2_pos [of k] roundHalfEven_nonneg [of "\<bar>x\<bar> / pow2 k"] by simp
  with x show ?thesis
    by (simp add: fl64_def Let_def)
qed

lemma fdiv_nonneg: "0 \<le> a \<Longrightarrow> 0 \<le> b \<Longrightarrow> 0 \<le> fdiv a b"
  by (simp add: fdiv_def fl64_nonneg)

lemma float64_of_int_nonneg: "0 \<le> n \<Longrightarrow> 0 \<le> float64_of_int n"
  by (simp add: float64_of_int_def fl64_nonneg)

lemma parseFloat_nonneg: "parseFloat s = Some v \<Longrightarrow> 0 \<le> v"
  by (auto simp: parseFloat_def Let_def fl64_nonneg split: if_splits)

lemma parseLatency_nonneg: "parseLatency goos out = Some v \<Longrightarrow> 0 \<le> v"
  by (auto simp: parseLatency_def parseFloat_nonneg split: option.splits)

lemma ex_sample_parsed: "parseFloat ''1.15'' = Some (ResponseTime ex_sample)"
proof -
  have v: "fl64 (of_nat (digitsVal ''1'') + of_nat (digitsVal ''15'') / 100) =
      5179139571476070 / 4503599627370496"
    by code_simp
  show ?thesis
    by (simp add: parseFloat_def isDigit_def hasPrefix_def Let_def v ex_sample_def)
qed

subsection \<open>The error of a rounding\<close>

text \<open>
  \<open>binExp\<close> is the binary exponent, so that a rounding changes a value of the normal range
  by at most the fraction \<open>2 ^ - 53\<close> of it, and a smaller value by at most \<open>2 ^ - 1075\<close>;
  integers below \<open>2 ^ 53\<close> are not changed.  From these follow the distance of the success
  rate from the exact percentage, and of the average from the arithmetic mean.
\<close>

lemma pow2_powi: "pow2 k = 2 powi k"
  by (simp add: pow2_def power_int_def inverse_eq_divide power_one_over)

lemma pow2_add: "pow2 (a + b) = pow2 a * pow2 b"
  by (simp add: pow2_powi power_int_add)

lemma pow2_less_iff: "pow2 a < pow2 b \<longleftrightarrow> a < b"
proof
  assume "pow2 a < pow2 b"
  show "a < b"
  proof (rule ccontr)
    assume "\<not> a < b"
    then have "b \<le> a" by simp
    then have "pow2 b \<le> pow2 a"
      unfolding pow2_powi by (intro power_int_increasing) auto
    with \<open>pow2 a < pow2 b\<close> show False by simp
  qed
next
  assume "a < b"
  then show "pow2 a < pow2 b"
    unfolding pow2_powi by (intro power_int_strict_increasing) auto
qed

lemma pow2_nat: "pow2 (int n) = 2 ^ n"
  by (simp add: pow2_def)

lemma binExp_bounds:
  assumes "0 < x"
  shows "pow2 (binExp x) \<le> x \<and> x < pow2 (binExp x + 1)"
proof -
  obtain p q where pq: "quotient_of x = (p, q)"
    by (cases "quotient_of x") auto
  have q: "0 < q" using quotient_of_denom_pos [OF pq] .
  have x: "x = of_int p / of_int q" using quotient_of_div [OF pq] .
  have p: "0 < p" using assms q unfolding x by (simp add: zero_less_divide_iff)
  let ?bp = "bitlen p" and ?bq = "bitlen q"
  have bp: "1 \<le> ?bp" and bq: "1 \<le> ?bq"
    using p q by (auto simp: bitlen_alt_def)
  have "(2::int) ^ nat (?bp - 1) \<le> p" "p < 2 ^ nat ?bp"
    using bitlen_bounds [OF p] by auto
  then have "(of_int ((2::int) ^ nat (?bp - 1)) :: rat) \<le> of_int p" "(of_int p :: rat) < of_int (2 ^ nat ?bp)"
    by (simp_all only: of_int_le_iff of_int_less_iff)
  then have P: "pow2 (?bp - 1) \<le> of_int p" "of_int p < pow2 ?bp"
    using bp by (simp_all add: pow2_def)
  have "(2::int) ^ nat (?bq - 1) \<le> q" "q < 2 ^ nat ?bq"
    using bitlen_bounds [OF q] by auto
  then have "(of_int ((2::int) ^ nat (?bq - 1)) :: rat) \<le> of_int q" "(of_int q :: rat) < of_int (2 ^ nat ?bq)"
    by (simp_all only: of_int_le_iff of_int_less_iff)
  then have Q: "pow2 (?bq - 1) \<le> of_int q" "of_int q < pow2 ?bq"
    using bq by (simp_all add: pow2_def)
  have qpos: "0 < (of_int q :: rat)" using q by simp
  let ?d = "?bp - ?bq"
  have lo: "pow2 (?d - 1) \<le> x"
  proof -
    have "pow2 (?d - 1) * of_int q \<le> pow2 (?d - 1) * pow2 ?bq"
      using Q(2) pow2_pos [of "?d - 1"] by (simp add: mult_left_mono)
    also have "\<dots> = pow2 (?bp - 1)"
      by (simp add: pow2_add [symmetric])
    also have "\<dots> \<le> of_int p" by (rule P(1))
    finally show ?thesis
      unfolding x using qpos by (simp add: pos_le_divide_eq)
  qed
  have hi: "x < pow2 (?d + 1)"
  proof -
    have "of_int p < pow2 ?bp" by (rule P(2))
    also have "\<dots> = pow2 (?d + 1) * pow2 (?bq - 1)"
      by (simp add: pow2_add [symmetric])
    also have "\<dots> \<le> pow2 (?d + 1) * of_int q"
      using Q(1) pow2_pos [of "?d + 1"] by (simp add: mult_left_mono)
    finally show ?thesis
      unfolding x using qpos by (simp add: pos_divide_less_eq)
  qed
  show ?thesis
    using lo hi by (auto simp: binExp_def pq Let_def not_le)
qed

lemma roundHalfEven_error: "\<bar>of_int (roundHalfEven y) - y\<bar> \<le> 1 / 2"
proof -
  have "of_int \<lfloor>y\<rfloor> \<le> y" "y < of_int \<lfloor>y\<rfloor> + 1"
    by linarith+
  then show ?thesis
    by (auto simp: roundHalfEven_def Let_def abs_le_iff)
qed

lemma roundHalfEven_of_int: "roundHalfEven (of_int m) = m"
  by (simp add: roundHalfEven_def)

lemma fl64_pos_normal:
  assumes "pow2 (- 1022) \<le> x"
  shows "fl64 x = of_int (roundHalfEven (x / pow2 (binExp x - 52))) * pow2 (binExp x - 52)"
proof -
  have x: "0 < x" using assms pow2_pos [of "- 1022"] by linarith
  have "pow2 (- 1022) < pow2 (binExp x + 1)"
    using binExp_bounds [OF x] assms by linarith
  then have "- 1022 \<le> binExp x" by (simp add: pow2_less_iff)
  then have "max (binExp x) (- 1022) = binExp x" by simp
  with x show ?thesis
    by (simp add: fl64_def Let_def)
qed

lemma fl64_error:
  assumes "pow2 (- 1022) \<le> x"
  shows "\<bar>fl64 x - x\<bar> \<le> x / 2 ^ 53"
proof -
  have x: "0 < x" using assms pow2_pos [of "- 1022"] by linarith
  let ?k = "binExp x - 52"
  let ?y = "x / pow2 ?k"
  have k: "0 < pow2 ?k" by (rule pow2_pos)
  have "fl64 x - x = (of_int (roundHalfEven ?y) - ?y) * pow2 ?k"
    using k by (simp add: fl64_pos_normal [OF assms] algebra_simps)
  then have "\<bar>fl64 x - x\<bar> = \<bar>of_int (roundHalfEven ?y) - ?y\<bar> * pow2 ?k"
    using k by (simp add: abs_mult)
  also have "\<dots> \<le> (1 / 2) * pow2 ?k"
    using roundHalfEven_error [of ?y] k by (simp add: mult_right_mono)
  also have "\<dots> = pow2 (binExp x) / 2 ^ 53"
  proof -
    have "pow2 (binExp x) = pow2 ?k * pow2 52"
      by (simp add: pow2_add [symmetric])
    then show ?thesis by (simp add: pow2_def)
  qed
  also have "\<dots> \<le> x / 2 ^ 53"
    using binExp_bounds [OF x] by (simp add: divide_right_mono)
  finally show ?thesis .
qed

lemma fl64_of_nat_exact:
  assumes "n < 2 ^ 53"
  shows "fl64 (of_nat n) = of_nat n"
proof (cases "n = 0")
  case True
  then show ?thesis by (simp add: fl64_def)
next
  case False
  let ?x = "of_nat n :: rat"
  have x1: "1 \<le> ?x" using False by simp
  have x: "0 < ?x" using False by simp
  have "pow2 (- 1022) \<le> pow2 0"
    unfolding pow2_powi by (intro power_int_increasing) auto
  then have norm: "pow2 (- 1022) \<le> ?x" using x1 by (simp add: pow2_def)
  have "?x < 2 ^ 53" using assms by (metis of_nat_less_iff of_nat_numeral of_nat_power)
  then have "?x < pow2 53" by (simp add: pow2_def)
  with binExp_bounds [OF x] have "pow2 (binExp ?x) < pow2 53" by linarith
  then have e: "binExp ?x \<le> 52" by (simp add: pow2_less_iff)
  define j where "j = nat (52 - binExp ?x)"
  have k: "binExp ?x - 52 = - int j" using e by (simp add: j_def)
  have pk: "pow2 (- int j) = 1 / 2 ^ j"
    by (cases "j = 0") (simp_all add: pow2_def)
  have "?x / pow2 (binExp ?x - 52) = of_int (int n * 2 ^ j)"
    unfolding k pk by simp
  then have "roundHalfEven (?x / pow2 (binExp ?x - 52)) = int n * 2 ^ j"
    by (simp only: roundHalfEven_of_int)
  then show ?thesis
    unfolding fl64_pos_normal [OF norm] k pk by simp
qed

lemma float64_of_int_exact: "n < 2 ^ 53 \<Longrightarrow> float64_of_int (int n) = of_nat n"
  using fl64_of_nat_exact [of n] by (simp add: float64_of_int_def)

lemma successRate_accuracy:
  assumes t: "0 < s + f" and small: "s + f < 2 ^ 53"
    and ls: "length (pingResults pm) = s" and lf: "length (unreachableTimes pm) = f"
  shows "\<bar>successRate pm - 100 * spec_successRate s f\<bar> \<le> 100 / 2 ^ 51"
proof (cases "s = 0")
  case True
  then show ?thesis
    using t ls lf
    by (simp add: successRate_def totalPings_def spec_successRate_def float64_of_int_def
        fdiv_def fmul_def fl64_def)
next
  case False
  define x :: rat where "x = of_nat s / of_nat (s + f)"
  define u :: rat where "u = 1 / 2 ^ 53"
  have s53: "s < 2 ^ 53" using small by simp
  have tp: "totalPings pm = int (s + f)" by (simp add: totalPings_def ls lf)
  have conv: "float64_of_int (int s) = of_nat s" "float64_of_int (int (s + f)) = of_nat (s + f)"
    using float64_of_int_exact [OF s53] float64_of_int_exact [OF small] by simp_all
  have tpos: "0 < (of_nat (s + f) :: rat)" using t by (simp only: of_nat_0_less_iff)
  have s1: "(1 :: rat) \<le> of_nat s" using False by simp
  have st: "(of_nat s :: rat) \<le> of_nat (s + f)" by (simp only: of_nat_le_iff le_add1)
  have tlt: "(of_nat (s + f) :: rat) \<le> 2 ^ 53"
    using small by (metis less_imp_le of_nat_le_iff of_nat_numeral of_nat_power)
  have x1: "x \<le> 1" unfolding x_def using tpos st by (simp only: pos_divide_le_eq mult_1)
  have "u \<le> 1 / of_nat (s + f)"
    unfolding u_def using tpos tlt by (intro divide_left_mono) auto
  also have "\<dots> \<le> x"
    unfolding x_def using tpos s1 by (intro divide_right_mono) auto
  finally have xlow: "u \<le> x" .
  have upos: "0 < u" by (simp add: u_def)
  have xpos: "0 < x" using xlow upos by linarith
  have m53: "pow2 (- 1022) \<le> u"
  proof -
    have "pow2 (- 1022) \<le> pow2 (- 53)"
      unfolding pow2_powi by (intro power_int_increasing) auto
    then show ?thesis by (simp add: pow2_def u_def)
  qed
  define q where "q = fl64 x"
  have "\<bar>q - x\<bar> \<le> x / 2 ^ 53"
    unfolding q_def using fl64_error [of x] m53 xlow by linarith
  then have qerr: "\<bar>q - x\<bar> \<le> x * u" by (simp add: u_def)
  have uhalf: "u \<le> 1 / 2" by (simp add: u_def)
  have "x * u \<le> x * (1 / 2)"
    using xpos uhalf by (intro mult_left_mono) auto
  then have xu2: "x * u \<le> x / 2" by simp
  have qlow: "x / 2 \<le> q" and qhigh: "q \<le> 2 * x"
    using qerr xu2 xpos by linarith+
  have "pow2 (- 1022) \<le> q * 100"
    using m53 xlow qlow pow2_pos [of "- 1022"] by linarith
  then have "\<bar>fl64 (q * 100) - q * 100\<bar> \<le> q * 100 / 2 ^ 53"
    by (rule fl64_error)
  then have rerr: "\<bar>fl64 (q * 100) - q * 100\<bar> \<le> 100 * (q * u)"
    by (simp add: u_def)
  have qu: "q * u \<le> (2 * x) * u"
    using qhigh upos by (intro mult_right_mono) auto
  note rerr
  also have "100 * (q * u) \<le> 100 * ((2 * x) * u)"
    using qu by (intro mult_left_mono) auto
  also have "\<dots> = 200 * (x * u)"
    by simp
  finally have rerr': "\<bar>fl64 (q * 100) - q * 100\<bar> \<le> 200 * (x * u)" .
  have "x * u \<le> 1 * u"
    using x1 upos by (intro mult_right_mono) auto
  then have xu: "x * u \<le> u" by simp
  have tri: "\<bar>a - 100 * x\<bar> \<le> \<bar>a - 100 * q\<bar> + 100 * \<bar>q - x\<bar>" for a
  proof -
    have eq: "a - 100 * x = (a - 100 * q) + 100 * (q - x)"
      by (simp add: algebra_simps)
    have m: "\<bar>100 * (q - x)\<bar> = 100 * \<bar>q - x\<bar>"
      by (simp only: abs_mult abs_numeral)
    have "\<bar>(a - 100 * q) + 100 * (q - x)\<bar> \<le> \<bar>a - 100 * q\<bar> + \<bar>100 * (q - x)\<bar>"
      by (rule abs_triangle_ineq)
    then show ?thesis
      unfolding eq m .
  qed
  have "\<bar>fl64 (q * 100) - 100 * x\<bar> \<le> \<bar>fl64 (q * 100) - q * 100\<bar> + 100 * \<bar>q - x\<bar>"
    using tri [of "fl64 (q * 100)"] by (simp only: mult.commute [of q 100])
  also have "\<dots> \<le> 200 * (x * u) + 100 * (x * u)"
    using rerr' qerr by (intro add_mono mult_left_mono) auto
  also have "\<dots> = 300 * (x * u)"
    by simp
  also have "\<dots> \<le> 300 * u"
    using xu by (intro mult_left_mono) auto
  also have "\<dots> \<le> 100 / 2 ^ 51"
    by (simp add: u_def)
  finally have "\<bar>fl64 (q * 100) - 100 * x\<bar> \<le> 100 / 2 ^ 51" .
  moreover have "successRate pm = fl64 (q * 100)"
  proof -
    have "0 < int (s + f)" using t by (simp only: of_nat_0_less_iff)
    then show ?thesis
      unfolding successRate_def tp ls conv fdiv_def fmul_def q_def x_def by simp
  qed
  moreover have "100 * spec_successRate s f = 100 * x"
    using t unfolding spec_successRate_def x_def by simp
  ultimately show ?thesis by simp
qed

lemma fl64_subnormal:
  assumes x: "0 < x" and sub: "x < pow2 (- 1022)"
  shows "fl64 x = of_int (roundHalfEven (x / pow2 (- 1074))) * pow2 (- 1074)"
proof -
  have "pow2 (binExp x) < pow2 (- 1022)"
    using binExp_bounds [OF x] sub by linarith
  then have "binExp x < - 1022" by (simp add: pow2_less_iff)
  then have "max (binExp x) (- 1022) - 52 = - 1074" by simp
  with x show ?thesis
    by (simp add: fl64_def Let_def)
qed

lemma fl64_error_abs:
  assumes "0 \<le> x"
  shows "\<bar>fl64 x - x\<bar> \<le> x / 2 ^ 53 + pow2 (- 1075)"
proof -
  consider "x = 0" | "0 < x" "x < pow2 (- 1022)" | "pow2 (- 1022) \<le> x"
    using assms by fastforce
  then show ?thesis
  proof cases
    case 1
    then show ?thesis using pow2_pos [of "- 1075"] by (simp add: fl64_def less_imp_le)
  next
    case 2
    let ?y = "x / pow2 (- 1074)"
    have k: "0 < pow2 (- 1074)" by (rule pow2_pos)
    have "fl64 x - x = (of_int (roundHalfEven ?y) - ?y) * pow2 (- 1074)"
      using k by (simp add: fl64_subnormal [OF 2] algebra_simps)
    then have "\<bar>fl64 x - x\<bar> = \<bar>of_int (roundHalfEven ?y) - ?y\<bar> * pow2 (- 1074)"
      using k by (simp add: abs_mult)
    also have "\<dots> \<le> (1 / 2) * pow2 (- 1074)"
      using roundHalfEven_error [of ?y] k by (simp add: mult_right_mono)
    also have "\<dots> = pow2 (- 1075)"
    proof -
      have "pow2 (- 1074) = pow2 (- 1075) * pow2 1"
        by (simp add: pow2_add [symmetric])
      then show ?thesis by (simp add: pow2_def)
    qed
    finally have "\<bar>fl64 x - x\<bar> \<le> pow2 (- 1075)" .
    moreover have "0 \<le> x / 2 ^ 53" using assms by simp
    ultimately show ?thesis by linarith
  next
    case 3
    then show ?thesis
      using fl64_error [OF 3] pow2_pos [of "- 1075"] by linarith
  qed
qed

lemma foldl_fadd_error:
  fixes S :: rat
  assumes "\<forall>x\<in>set xs. 0 \<le> x" and "sum_list xs \<le> S" and "of_nat (length xs) \<le> (2 :: rat) ^ 52"
  shows "0 \<le> foldl fadd 0 xs \<and>
         \<bar>foldl fadd 0 xs - sum_list xs\<bar> \<le> 2 * of_nat (length xs) * (S / 2 ^ 53 + pow2 (- 1075))"
  using assms
proof (induction xs rule: rev_induct)
  case Nil
  then show ?case by simp
next
  case (snoc x xs)
  define u :: rat where "u = 1 / 2 ^ 53"
  define eta :: rat where "eta = pow2 (- 1075)"
  define c where "c = S * u + eta"
  define k :: rat where "k = of_nat (length xs)"
  define s where "s = foldl fadd 0 xs"
  define a where "a = sum_list xs"
  have upos: "0 < u" by (simp add: u_def)
  have etapos: "0 < eta" unfolding eta_def by (rule pow2_pos)
  have x0: "0 \<le> x" using snoc.prems(1) by simp
  have xs0: "\<forall>y\<in>set xs. 0 \<le> y" using snoc.prems(1) by simp
  have a0: "0 \<le> a" unfolding a_def using xs0 by (simp add: sum_list_nonneg)
  have ax: "a + x \<le> S" using snoc.prems(2) by (simp add: a_def)
  have aS: "a \<le> S" using ax x0 by linarith
  have S0: "0 \<le> S" using a0 aS by linarith
  have c0: "0 \<le> c" unfolding c_def using S0 upos etapos by simp
  have k0: "0 \<le> k" by (simp add: k_def)
  have k1: "k + 1 \<le> 2 ^ 52" using snoc.prems(3) by (simp add: k_def)
  then have k52: "k \<le> 2 ^ 52" by linarith
  have "2 * k * u \<le> 2 * 2 ^ 52 * u"
    using k52 upos by (intro mult_right_mono mult_left_mono) auto
  also have "\<dots> = 1" by (simp add: u_def)
  finally have ku: "2 * k * u \<le> 1" .
  have ih: "0 \<le> s" "\<bar>s - a\<bar> \<le> 2 * k * c"
    using snoc.IH [OF xs0] aS k52
    by (simp_all add: s_def a_def k_def c_def u_def eta_def)
  have sx0: "0 \<le> s + x" using ih(1) x0 by linarith
  have r: "\<bar>fl64 (s + x) - (s + x)\<bar> \<le> (s + x) * u + eta"
    using fl64_error_abs [OF sx0] by (simp add: u_def eta_def)
  have "s + x \<le> S + 2 * k * c" using ih(2) ax by linarith
  then have "(s + x) * u \<le> (S + 2 * k * c) * u"
    using upos by (intro mult_right_mono) auto
  also have "\<dots> = S * u + (2 * k * u) * c" by (simp add: algebra_simps)
  also have "\<dots> \<le> S * u + 1 * c"
    using ku c0 by (intro add_left_mono mult_right_mono) auto
  finally have "(s + x) * u \<le> S * u + c" by simp
  then have "(s + x) * u + eta \<le> (S * u + eta) + c" by (simp only: add_right_mono add.assoc add.commute [of eta c] add.left_commute)
  then have "(s + x) * u + eta \<le> 2 * c" by (simp only: c_def [symmetric] mult_2)
  with r have r': "\<bar>fl64 (s + x) - (s + x)\<bar> \<le> 2 * c" by linarith
  have "\<bar>fl64 (s + x) - (a + x)\<bar> \<le> 2 * k * c + 2 * c"
    using r' ih(2) by linarith
  also have "\<dots> = 2 * (k + 1) * c" by (simp add: algebra_simps)
  finally have e: "\<bar>fl64 (s + x) - (a + x)\<bar> \<le> 2 * (k + 1) * c" .
  have f: "foldl fadd 0 (xs @ [x]) = fl64 (s + x)" by (simp add: s_def fadd_def)
  have "0 \<le> fl64 (s + x)" using sx0 by (rule fl64_nonneg)
  with e show ?case
    unfolding f by (simp add: a_def k_def c_def u_def eta_def add.commute)
qed

lemma average_error:
  fixes xs :: "rat list"
  assumes ne: "xs \<noteq> []" and nonneg: "\<forall>x\<in>set xs. 0 \<le> x" and len: "length xs \<le> 2 ^ 52"
  shows "\<bar>fdiv (foldl fadd 0 xs) (float64_of_int (int (length xs))) - sum_list xs / of_nat (length xs)\<bar>
           \<le> sum_list xs / of_nat (length xs) * of_nat (length xs + 1) / 2 ^ 52 + 1 / 2 ^ 1073"
proof -
  define u :: rat where "u = 1 / 2 ^ 53"
  define eta :: rat where "eta = pow2 (- 1075)"
  define S where "S = sum_list xs"
  define n :: rat where "n = of_nat (length xs)"
  define s where "s = foldl fadd 0 xs"
  define c where "c = S * u + eta"
  have upos: "0 < u" by (simp add: u_def)
  have u2: "2 * u \<le> 1" by (simp add: u_def)
  have etapos: "0 < eta" unfolding eta_def by (rule pow2_pos)
  have n1: "1 \<le> n" using ne by (cases xs) (simp_all add: n_def)
  have npos: "0 < n" using n1 by linarith
  have "(of_nat (length xs) :: rat) \<le> of_nat (2 ^ 52)" using len by (simp only: of_nat_le_iff)
  then have n52: "n \<le> 2 ^ 52" by (simp add: n_def)
  have S0: "0 \<le> S" unfolding S_def using nonneg by (simp add: sum_list_nonneg)
  have c0: "0 \<le> c" unfolding c_def using S0 upos etapos by simp
  have fe: "0 \<le> s" "\<bar>s - S\<bar> \<le> 2 * n * c"
    using foldl_fadd_error [OF nonneg, of S] n52
    by (simp_all add: s_def S_def n_def c_def u_def eta_def)
  have "length xs < 2 ^ 53" using len by (rule le_less_trans) simp
  then have conv: "float64_of_int (int (length xs)) = n"
    unfolding n_def by (rule float64_of_int_exact)
  have avg: "fdiv (foldl fadd 0 xs) (float64_of_int (int (length xs))) = fl64 (s / n)"
    by (simp add: fdiv_def conv s_def)
  have q0: "0 \<le> s / n" using fe(1) npos by simp
  have r: "\<bar>fl64 (s / n) - s / n\<bar> \<le> s / n * u + eta"
    using fl64_error_abs [OF q0] by (simp add: u_def eta_def)
  have "2 * n * u \<le> 2 * 2 ^ 52 * u"
    using n52 upos by (intro mult_right_mono mult_left_mono) auto
  also have "\<dots> = 1" by (simp add: u_def)
  finally have nu: "2 * n * u \<le> 1" .
  have d: "\<bar>s / n - S / n\<bar> \<le> 2 * c"
  proof -
    have "\<bar>s / n - S / n\<bar> = \<bar>s - S\<bar> / n"
      using npos by (simp add: diff_divide_distrib [symmetric])
    also have "\<dots> \<le> (2 * n * c) / n"
      using fe(2) npos by (intro divide_right_mono) auto
    also have "\<dots> = 2 * c" using npos by simp
    finally show ?thesis .
  qed
  define m where "m = S / n"
  define A where "A = m * u"
  define B where "B = S * u"
  define Q where "Q = s / n"
  have m0: "0 \<le> m" unfolding m_def using S0 npos by simp
  have Snm: "S = n * m" unfolding m_def using npos by simp
  have cB: "c = B + eta" by (simp add: c_def B_def)
  have "2 * B = (2 * n * u) * m" by (simp add: B_def Snm)
  also have "\<dots> \<le> 1 * m" using nu m0 by (intro mult_right_mono) auto
  finally have B2: "2 * B \<le> m" by simp
  have d': "\<bar>Q - m\<bar> \<le> 2 * B + 2 * eta" using d by (simp add: Q_def m_def cB)
  have r': "\<bar>fl64 Q - Q\<bar> \<le> Q * u + eta" using r by (simp add: Q_def)
  have "Q \<le> 2 * m + 2 * eta" using d' B2 by linarith
  then have "Q * u \<le> (2 * m + 2 * eta) * u"
    using upos by (intro mult_right_mono) auto
  also have "\<dots> = 2 * A + (2 * u) * eta" by (simp add: A_def algebra_simps)
  also have "\<dots> \<le> 2 * A + 1 * eta"
    using u2 etapos by (intro add_left_mono mult_right_mono) auto
  finally have Qu: "Q * u \<le> 2 * A + eta" by simp
  have main: "\<bar>fl64 Q - m\<bar> \<le> 2 * A + 2 * B + 4 * eta"
    using r' d' Qu by linarith
  have "m * (n + 1) / 2 ^ 52 = 2 * (m * (n + 1) * u)" by (simp add: u_def)
  also have "\<dots> = 2 * A + 2 * B" by (simp add: A_def B_def Snm algebra_simps)
  finally have t1: "m * (n + 1) / 2 ^ 52 = 2 * A + 2 * B" .
  have "pow2 (- 1073) = pow2 (- 1075) * pow2 2" by (simp add: pow2_add [symmetric])
  then have t2: "1 / 2 ^ 1073 = 4 * eta" by (simp add: pow2_def eta_def)
  have n': "(of_nat (length xs + 1) :: rat) = n + 1" by (simp add: n_def)
  show ?thesis
    unfolding avg n' t2 using main t1 by (simp add: Q_def m_def S_def n_def)
qed

lemma foldl_fadd_finite:
  fixes xs :: "rat list"
  assumes nonneg: "\<forall>x\<in>set xs. 0 \<le> x" and len: "length xs \<le> 2 ^ 52"
    and range: "sum_list xs \<le> 2 ^ 1022"
  shows "foldl fadd 0 xs < 2 ^ 1024"
proof -
  define u :: rat where "u = 1 / 2 ^ 53"
  define eta :: rat where "eta = pow2 (- 1075)"
  define T :: rat where "T = 2 ^ 1022"
  define n :: rat where "n = of_nat (length xs)"
  have upos: "0 < u" by (simp add: u_def)
  have etapos: "0 < eta" unfolding eta_def by (rule pow2_pos)
  have T1: "1 \<le> T" by (simp add: T_def)
  have "(of_nat (length xs) :: rat) \<le> of_nat (2 ^ 52)" using len by (simp only: of_nat_le_iff)
  then have n52: "n \<le> 2 ^ 52" by (simp add: n_def)
  have n0: "0 \<le> n" by (simp add: n_def)
  have fe: "\<bar>foldl fadd 0 xs - sum_list xs\<bar> \<le> 2 * n * (T * u + eta)"
    using foldl_fadd_error [OF nonneg, of T] n52 range
    by (simp add: n_def T_def u_def eta_def)
  have "2 * n * u \<le> 2 * 2 ^ 52 * u"
    using n52 upos by (intro mult_right_mono mult_left_mono) auto
  also have "\<dots> = 1" by (simp add: u_def)
  finally have nu: "2 * n * u \<le> 1" .
  have "pow2 (- 1075) \<le> pow2 (- 53)"
    unfolding pow2_powi by (intro power_int_increasing) auto
  then have "eta \<le> u" by (simp add: eta_def u_def pow2_def)
  then have "2 * n * eta \<le> 2 * n * u"
    using n0 by (intro mult_left_mono) auto
  with nu have neta: "2 * n * eta \<le> 1" by linarith
  have "2 * n * (T * u + eta) = (2 * n * u) * T + 2 * n * eta" by (simp add: algebra_simps)
  also have "\<dots> \<le> 1 * T + 1"
    using nu neta T1 by (intro add_mono mult_right_mono) auto
  finally have "2 * n * (T * u + eta) \<le> 2 * T" using T1 by linarith
  moreover have "sum_list xs \<le> T" using range by (simp only: T_def)
  ultimately have "foldl fadd 0 xs \<le> 3 * T" using fe by linarith
  also have "\<dots> < 4 * T" using T1 by linarith
  also have "\<dots> = 2 ^ 1024" by (simp add: T_def)
  finally show ?thesis .
qed

subsection \<open>Decimal digits and the layouts of time\<close>

lemma natDec_length: "0 < k \<Longrightarrow> n < 10 ^ k \<Longrightarrow> length (natDec n) \<le> k"
proof (induction k arbitrary: n)
  case 0
  then show ?case by simp
next
  case (Suc k)
  show ?case
  proof (cases "n < 10")
    case True
    then show ?thesis by (simp add: natDec.simps)
  next
    case False
    then have k: "0 < k" using Suc.prems by (cases k) auto
    have "n div 10 < 10 ^ k" using Suc.prems by (simp add: less_mult_imp_div_less mult.commute)
    from Suc.IH [OF k this] False show ?thesis
      by (subst natDec.simps) simp
  qed
qed

lemma natDec_nonempty: "natDec n \<noteq> []"
  by (subst natDec.simps) simp

lemma length_appendInt2: "x < 100 \<Longrightarrow> length (appendInt x 2) = 2"
proof -
  assume "x < 100"
  then have "length (natDec x) \<le> 2" using natDec_length [of 2 x] by simp
  moreover have "length (natDec x) \<noteq> 0" using natDec_nonempty [of x] by simp
  ultimately show ?thesis by (auto simp: appendInt_def)
qed

lemma length_formatClock: "wf_time t \<Longrightarrow> length (formatClock t) = 8"
  by (simp add: formatClock_def wf_time_def length_appendInt2)

lemma join_snoc: "xs \<noteq> [] \<Longrightarrow> join (xs @ [y]) sep = join xs sep @ sep @ y"
  by (induction xs sep rule: join.induct) auto

lemma length_join:
  "\<forall>x\<in>set xs. length x = n \<Longrightarrow> length (join xs sep) = length xs * n + (length xs - 1) * length sep"
  by (induction xs sep rule: join.induct) auto

subsection \<open>The list of failure times, in both renderings\<close>

lemma periodsLoop_take:
  "i \<le> 10 \<Longrightarrow> periodsLoop i ts periods = periods @ map formatClock (take (10 - i) ts)"
proof (induction ts arbitrary: i periods)
  case Nil
  then show ?case by simp
next
  case (Cons t ts)
  show ?case
  proof (cases "i = 10")
    case True
    then show ?thesis by simp
  next
    case False
    with Cons.prems have lt: "i < 10" by simp
    then have "10 - i = Suc (10 - (i + 1))" by simp
    with lt Cons.IH [of "i + 1" "periods @ [formatClock t]"] show ?thesis
      by simp
  qed
qed

lemma printTimesLoop_lines:
  "i \<le> 10 \<Longrightarrow>
   printTimesLoop i n ts =
     map (\<lambda>l. Print (''  '' @ l @ ''\<newline>''))
       (map formatClock (take (10 - i) ts) @
        (if 10 - i < length ts then [''... '' @ ja_others @ fmtD (n - 10) @ ja_items] else []))"
proof (induction ts arbitrary: i)
  case Nil
  then show ?case by simp
next
  case (Cons t ts)
  show ?case
  proof (cases "i = 10")
    case True
    then show ?thesis by simp
  next
    case False
    with Cons.prems have lt: "i < 10" by simp
    then have "10 - i = Suc (10 - (i + 1))" by simp
    with lt Cons.IH [of "i + 1"] show ?thesis
      by simp
  qed
qed

lemma length_moreSuffix: "0 \<le> n \<Longrightarrow> n < 2 ^ 63 \<Longrightarrow> length (moreSuffix n) \<le> 30"
proof -
  assume n: "0 \<le> n" "n < 2 ^ 63"
  then have "nat n < 10 ^ 19" by simp
  then have "length (natDec (nat n)) \<le> 19" using natDec_length [of 19 "nat n"] by simp
  with n show ?thesis
    by (simp add: moreSuffix_def fmtD_def ja_others_def ja_items_def)
qed

lemma formatUnreachablePeriods_join:
  "unreachableTimes pm \<noteq> [] \<Longrightarrow>
   formatUnreachablePeriods pm =
     (let u = join (failureLines (unreachableTimes pm)) ''\<newline>''
      in if 1024 < length u then take 1020 u @ ''...'' else u)"
proof -
  assume ne: "unreachableTimes pm \<noteq> []"
  then have "map formatClock (take 10 (unreachableTimes pm)) \<noteq> []" by simp
  from join_snoc [OF this]
  have "join (failureLines (unreachableTimes pm)) ''\<newline>'' =
      (if 10 < length (unreachableTimes pm)
       then join (map formatClock (take 10 (unreachableTimes pm))) ''\<newline>'' @
            moreSuffix (int (length (unreachableTimes pm)) - 10)
       else join (map formatClock (take 10 (unreachableTimes pm))) ''\<newline>'')"
    by (simp add: failureLines_def moreSuffix_def)
  with ne show ?thesis
    by (simp add: formatUnreachablePeriods_def periodsLoop_take Let_def)
qed

lemma length_join_failureLines:
  assumes wf: "\<forall>t\<in>set ts. wf_time t" and len: "length ts < 2 ^ 63"
  shows "length (join (failureLines ts) ''\<newline>'') \<le> 119"
proof (cases "ts = []")
  case True
  then show ?thesis by (simp add: failureLines_def)
next
  case False
  let ?es = "map formatClock (take 10 ts)"
  have es: "?es \<noteq> []" using False by simp
  have "\<forall>x\<in>set ?es. length x = 8"
    using wf by (auto simp: length_formatClock dest: in_set_takeD)
  from length_join [OF this, of "''\<newline>''"]
  have l: "length (join ?es ''\<newline>'') \<le> 89" by simp
  show ?thesis
  proof (cases "10 < length ts")
    case True
    have "length (moreSuffix (int (length ts) - 10)) \<le> 30"
      using True len by (intro length_moreSuffix) auto
    with l True join_snoc [OF es] show ?thesis
      by (simp add: failureLines_def moreSuffix_def)
  next
    case False
    with l show ?thesis by (simp add: failureLines_def)
  qed
qed

lemma formatUnreachablePeriods_exact:
  assumes "\<forall>t\<in>set (unreachableTimes pm). wf_time t" and "length (unreachableTimes pm) < 2 ^ 63"
    and "unreachableTimes pm \<noteq> []"
  shows "formatUnreachablePeriods pm = join (failureLines (unreachableTimes pm)) ''\<newline>''"
  using length_join_failureLines [OF assms(1) assms(2)] formatUnreachablePeriods_join [OF assms(3)]
  by (simp add: Let_def)

subsection \<open>The two renderings\<close>

lemma Fields_dailyEmbed_0:
  "Fields (dailyEmbed pm d t) ! 0 =
     \<lparr>Name = emoji_bar_chart @ '' '' @ ja_response_time_stats,
      Value = ''**'' @ ja_average @ ''**: '' @ fmtFixed 1 (fst (reportStats pm)) @ ''ms\<newline>**'' @
        ja_maximum @ ''**: '' @ fmtFixed 1 (fst (snd (reportStats pm))) @ ''ms\<newline>**'' @
        ja_minimum @ ''**: '' @ fmtFixed 1 (snd (snd (reportStats pm))) @ ''ms'',
      Inline = True\<rparr>"
  by (simp add: dailyEmbed_def Let_def case_prod_beta)

lemma Fields_dailyEmbed_1:
  "Fields (dailyEmbed pm d t) ! 1 =
     \<lparr>Name = emoji_chart_up @ '' '' @ ja_reachability_stats,
      Value = ''**'' @ ja_success_rate @ ''**: '' @ fmtFixed 2 (successRate pm) @ ''%\<newline>**'' @
        ja_success_count @ ''**: '' @ fmtD (int (length (pingResults pm))) @ ''\<newline>**'' @
        ja_failure_count @ ''**: '' @ fmtD (int (length (unreachableTimes pm))),
      Inline = True\<rparr>"
  by (simp add: dailyEmbed_def Let_def case_prod_beta)

lemma Fields_dailyEmbed_2:
  "Fields (dailyEmbed pm d t) ! 2 =
     \<lparr>Name = emoji_stopwatch @ '' '' @ ja_monitoring_info,
      Value = ''**'' @ ja_total @ ''ping'' @ ja_count @ ''**: '' @ fmtD (totalPings pm) @
        ''\<newline>**'' @ ja_interval @ ''**: '' @ durationString (pingInterval pm),
      Inline = True\<rparr>"
  by (simp add: dailyEmbed_def Let_def case_prod_beta)

lemma Fields_dailyEmbed_3:
  "unreachableTimes pm \<noteq> [] \<Longrightarrow>
     length (Fields (dailyEmbed pm d t)) = 4 \<and>
     Value (Fields (dailyEmbed pm d t) ! 3) = formatUnreachablePeriods pm"
  by (simp add: dailyEmbed_def Let_def case_prod_beta)

lemma Fields_dailyEmbed_length: "unreachableTimes pm = [] \<Longrightarrow> length (Fields (dailyEmbed pm d t)) = 3"
  by (simp add: dailyEmbed_def Let_def case_prod_beta)

lemma printDailyReport_reachability:
  "Print (''  '' @ ja_success_rate @ '': '' @ fmtFixed 2 (successRate pm) @ ''%\<newline>'')
     \<in> set (printDailyReport pm d)"
  "Print (''  '' @ ja_success_count @ '': '' @ fmtD (int (length (pingResults pm))) @ ''\<newline>'')
     \<in> set (printDailyReport pm d)"
  "Print (''  '' @ ja_failure_count @ '': '' @ fmtD (int (length (unreachableTimes pm))) @ ''\<newline>'')
     \<in> set (printDailyReport pm d)"
  "Print (''  '' @ ja_total @ ''ping'' @ ja_count @ '': '' @ fmtD (totalPings pm) @ ''\<newline>'')
     \<in> set (printDailyReport pm d)"
  by (simp_all add: printDailyReport_def)

lemma printDailyReport_latency:
  "pingResults pm \<noteq> [] \<Longrightarrow>
   Print (''  '' @ ja_average @ '': '' @ fmtFixed 1 (fst (reportStats pm)) @ ''ms\<newline>'')
     \<in> set (printDailyReport pm d) \<and>
   Print (''  '' @ ja_maximum @ '': '' @ fmtFixed 1 (fst (snd (reportStats pm))) @ ''ms\<newline>'')
     \<in> set (printDailyReport pm d) \<and>
   Print (''  '' @ ja_minimum @ '': '' @ fmtFixed 1 (snd (snd (reportStats pm))) @ ''ms\<newline>'')
     \<in> set (printDailyReport pm d)"
proof -
  assume ne: "pingResults pm \<noteq> []"
  obtain a mx mn where st: "latencyStats (pingResults pm) = (a, mx, mn)"
    by (cases "latencyStats (pingResults pm)") auto
  from ne st have rs: "reportStats pm = (a, mx, mn)"
    by (simp add: reportStats_def)
  from ne st show ?thesis
    unfolding rs by (simp add: printDailyReport_def)
qed

lemma printDailyReport_failures:
  "unreachableTimes pm \<noteq> [] \<Longrightarrow>
   set (map (\<lambda>l. Print (''  '' @ l @ ''\<newline>'')) (failureLines (unreachableTimes pm)))
     \<subseteq> set (printDailyReport pm d)"
  using printTimesLoop_lines [of 0 "int (length (unreachableTimes pm))" "unreachableTimes pm"]
  by (auto simp: printDailyReport_def failureLines_def)

lemma printDailyReport_lines:
  "printDailyReport pm d =
     [Print (''\<newline>'' @ repeat ''='' 50 @ ''\<newline>''),
      Print (emoji_bar_chart @ '' Ping Monitor '' @ ja_daily_report @ '' - '' @ d @ ''\<newline>''),
      Print (repeat ''='' 50 @ ''\<newline>''),
      Print (ja_target @ '': Google (8.8.8.8)\<newline>''),
      Print (ja_source @ '': '' @ localIP pm @ ''\<newline>'')] @
     (if pingResults pm \<noteq> [] then
        [Print (''\<newline>'' @ emoji_bar_chart @ '' '' @ ja_response_time_stats @ '':\<newline>''),
         Print (''  '' @ ja_average @ '': '' @ fmtFixed 1 (fst (reportStats pm)) @ ''ms\<newline>''),
         Print (''  '' @ ja_maximum @ '': '' @ fmtFixed 1 (fst (snd (reportStats pm))) @ ''ms\<newline>''),
         Print (''  '' @ ja_minimum @ '': '' @ fmtFixed 1 (snd (snd (reportStats pm))) @ ''ms\<newline>'')]
      else []) @
     [Print (''\<newline>'' @ emoji_chart_up @ '' '' @ ja_reachability_stats @ '':\<newline>''),
      Print (''  '' @ ja_success_rate @ '': '' @ fmtFixed 2 (successRate pm) @ ''%\<newline>''),
      Print (''  '' @ ja_success_count @ '': '' @ fmtD (int (length (pingResults pm))) @ ''\<newline>''),
      Print (''  '' @ ja_failure_count @ '': '' @ fmtD (int (length (unreachableTimes pm))) @ ''\<newline>''),
      Print (''  '' @ ja_total @ ''ping'' @ ja_count @ '': '' @ fmtD (totalPings pm) @ ''\<newline>'')] @
     (if unreachableTimes pm \<noteq> [] then
        Print (''\<newline>'' @ emoji_warning @ '' '' @ ja_unreachable_times @ '':\<newline>'') #
        map (\<lambda>l. Print (''  '' @ l @ ''\<newline>'')) (failureLines (unreachableTimes pm))
      else []) @
     [Print (repeat ''='' 50 @ ''\<newline>\<newline>'')]"
proof -
  have f: "printTimesLoop 0 (int (length (unreachableTimes pm))) (unreachableTimes pm) =
      map (\<lambda>l. Print (''  '' @ l @ ''\<newline>'')) (failureLines (unreachableTimes pm))"
    using printTimesLoop_lines [of 0 "int (length (unreachableTimes pm))" "unreachableTimes pm"]
    by (simp add: failureLines_def)
  show ?thesis
  proof (cases "pingResults pm = []")
    case True
    then show ?thesis
      unfolding printDailyReport_def f by simp
  next
    case False
    obtain a mx mn where st: "latencyStats (pingResults pm) = (a, mx, mn)"
      by (cases "latencyStats (pingResults pm)") auto
    from False st have rs: "reportStats pm = (a, mx, mn)"
      by (simp add: reportStats_def)
    from False show ?thesis
      unfolding printDailyReport_def f rs st by simp
  qed
qed

lemma reportStats_no_success: "pingResults pm = [] \<Longrightarrow> reportStats pm = (0, 0, 0)"
  by (simp add: reportStats_def)

lemma fmtFixed_1_zero: "fmtFixed 1 0 = ''0.0''"
  by code_simp

lemma printTimesLoop_no_post: "ev \<in> set (printTimesLoop i n ts) \<Longrightarrow> \<not> isHttpPost ev"
  by (induction ts arbitrary: i) (auto split: if_splits)

lemma printDailyReport_no_post: "ev \<in> set (printDailyReport pm d) \<Longrightarrow> \<not> isHttpPost ev"
proof -
  assume ev: "ev \<in> set (printDailyReport pm d)"
  obtain a mx mn where st: "latencyStats (pingResults pm) = (a, mx, mn)"
    by (cases "latencyStats (pingResults pm)") auto
  show ?thesis
    using ev printTimesLoop_no_post [of ev 0 "int (length (unreachableTimes pm))" "unreachableTimes pm"]
    by (cases "pingResults pm = []"; cases "unreachableTimes pm = []")
      (auto simp: printDailyReport_def st)
qed

lemma filter_post_printDailyReport: "filter isHttpPost (printDailyReport pm d) = []"
  by (simp add: filter_empty_conv printDailyReport_no_post)

lemma sendDailyReport_nonempty: "sendDailyReport env pm d \<noteq> []"
  by (simp add: sendDailyReport_def sendToDiscord_def Let_def split: option.splits http_result.splits)

subsection \<open>The statistics loop\<close>

lemma statsLoop_sum:
  "fst (statsLoop rs (s, mx, mn)) = foldl fadd s (map ResponseTime rs)"
  by (induction rs arbitrary: s mx mn) auto

lemma Max_insert_max:
  "finite S \<Longrightarrow> Max (insert (max a b) S) = Max (insert a (insert b S))" for a :: rat
  by (cases "S = {}") (simp_all add: max.assoc)

lemma Min_insert_min:
  "finite S \<Longrightarrow> Min (insert (min a b) S) = Min (insert a (insert b S))" for a :: rat
  by (cases "S = {}") (simp_all add: min.assoc)

lemma statsLoop_max:
  "fst (snd (statsLoop rs (s, mx, mn))) = Max (insert mx (ResponseTime ` set rs))"
proof (induction rs arbitrary: s mx mn)
  case Nil
  then show ?case by simp
next
  case (Cons r rs)
  have step: "(if mx < ResponseTime r then ResponseTime r else mx) = max mx (ResponseTime r)"
    by (simp add: max_def)
  show ?case
    by (simp add: step Cons.IH Max_insert_max del: Max_insert)
qed

lemma statsLoop_min:
  "snd (snd (statsLoop rs (s, mx, mn))) = Min (insert mn (ResponseTime ` set rs))"
proof (induction rs arbitrary: s mx mn)
  case Nil
  then show ?case by simp
next
  case (Cons r rs)
  have step: "(if ResponseTime r < mn then ResponseTime r else mn) = min mn (ResponseTime r)"
    by (simp add: min_def)
  show ?case
    by (simp add: step Cons.IH Min_insert_min del: Min_insert)
qed

lemma latencyStats_eq:
  "rs \<noteq> [] \<Longrightarrow>
   latencyStats rs =
     (fdiv (foldl fadd 0 (map ResponseTime rs)) (float64_of_int (int (length rs))),
      Max (ResponseTime ` set rs), Min (ResponseTime ` set rs))"
proof -
  assume ne: "rs \<noteq> []"
  then have hd: "insert (ResponseTime (hd rs)) (ResponseTime ` set rs) = ResponseTime ` set rs"
    by (cases rs) auto
  obtain a b c where st: "statsLoop rs (0, ResponseTime (hd rs), ResponseTime (hd rs)) = (a, b, c)"
    by (cases "statsLoop rs (0, ResponseTime (hd rs), ResponseTime (hd rs))") auto
  from statsLoop_sum [of rs 0 "ResponseTime (hd rs)" "ResponseTime (hd rs)"]
    statsLoop_max [of rs 0 "ResponseTime (hd rs)" "ResponseTime (hd rs)"]
    statsLoop_min [of rs 0 "ResponseTime (hd rs)" "ResponseTime (hd rs)"]
  show ?thesis
    by (simp add: latencyStats_def st hd)
qed

lemma sum_list_bounds:
  fixes xs :: "rat list"
  assumes "xs \<noteq> []"
  shows "Min (set xs) * of_nat (length xs) \<le> sum_list xs"
    and "sum_list xs \<le> Max (set xs) * of_nat (length xs)"
proof -
  have "\<forall>x\<in>set xs. Min (set xs) \<le> x" by simp
  then have "sum_list (map (\<lambda>x. Min (set xs)) xs) \<le> sum_list (map (\<lambda>x. x) xs)"
    by (intro sum_list_mono) auto
  then show "Min (set xs) * of_nat (length xs) \<le> sum_list xs"
    by (simp add: sum_list_triv mult.commute)
  have "\<forall>x\<in>set xs. x \<le> Max (set xs)" by simp
  then have "sum_list (map (\<lambda>x. x) xs) \<le> sum_list (map (\<lambda>x. Max (set xs)) xs)"
    by (intro sum_list_mono) auto
  then show "sum_list xs \<le> Max (set xs) * of_nat (length xs)"
    by (simp add: sum_list_triv mult.commute)
qed

subsection \<open>The loop body\<close>

lemma dayChange_gatewayRun: "dayChange (tk\<lparr>gatewayRun := g\<rparr>) s = dayChange tk s"
  by (simp add: dayChange_def Let_def split: prod.splits)

lemma probe_failure:
  "runErr (targetRun tk) = Some e \<Longrightarrow>
     snd (probe goos tk pm) = pm\<lparr>unreachableTimes := unreachableTimes pm @ [now tk]\<rparr>"
  by (simp add: probe_def pingHost_def Let_def split: option.splits prod.splits)

lemma dayChange_rollover:
  "formatDate (now tk) \<noteq> lastDay \<Longrightarrow> pingResults pm \<noteq> [] \<Longrightarrow>
     dayChange tk (pm, lastDay) =
       (sendDailyReport (reportEnv tk) pm lastDay,
        pm\<lparr>pingResults := [], unreachableTimes := []\<rparr>, formatDate (now tk))"
  by (simp add: dayChange_def resetDailyData_def)

lemma dayChange_empty:
  "pingResults pm = [] \<Longrightarrow> dayChange tk (pm, lastDay) = ([], pm, lastDay)"
  by (simp add: dayChange_def)

section \<open>The claims\<close>

subsection \<open>C1: the day change\<close>

text \<open>
  C1 says that a tick on a new date, with a DayLog that holds a success or a failure,
  generates one report for the earlier date and empties the accumulator. The loop body
  does so when the DayLog holds a success (\<open>dayChange_rollover\<close> above), and sends
  nothing when the DayLog is empty (\<open>dayChange_empty\<close>). Its test at main.go 239 reads
  only \<^verbatim>\<open>len(pm.pingResults)\<close>, though, where \<open>Stop\<close> at main.go 493 reads both lists:
  after a day on which every probe failed, the code sends no report, keeps the failure
  of the earlier date beside the new day's samples, and keeps \<open>lastDay\<close>. The theorem
  evaluates the loop body at such a tick: the only events are those of the two probes.
\<close>

theorem pingLoop_tick_failures_only_day:
  "formatDate ex_clock1 = ''2024-01-01'' \<and> formatDate (now ex_tick2) = ''2024-01-02'' \<and>
   unreachableTimes ex_pm_failures_only = [ex_clock1] \<and>
   pingLoop_tick ''linux'' ex_tick2 (ex_pm_failures_only, ''2024-01-01'') =
     ([Exec [''ping'', ''-c'', ''1'', ''-W'', ''3'', ''8.8.8.8''],
       Print (''00:00:00 - Google'' @ ja_unreachable @ ''\<newline>''),
       Exec [''ping'', ''-c'', ''1'', ''-W'', ''3'', ''192.168.1.1''],
       Print (''  -> '' @ ja_default_gateway @ ''(192.168.1.1): '' @ ja_unreachable @ ''\<newline>'')],
      ex_pm\<lparr>unreachableTimes := [ex_clock1, ex_clock2]\<rparr>, ''2024-01-01'')"
  by code_simp

subsection \<open>C2: the success rate\<close>

text \<open>
  C2 as stated, that the success rate of the daily report equals
  successes / (successes + failures) (\<open>spec_successRate\<close>, the exact quotient), does not hold.
  The code computes the percentage, \<^verbatim>\<open>float64(successes) / float64(total) * 100\<close>, and rounds
  twice, after the division and after the multiplication. With 7 successes and 18 failures
  the rate is neither 7 / 25 nor 28, but the float64 above 28
  (28.000000000000004); with 23 successes and 137 failures the exact percentage is 14.375,
  which rounds to 14.38 with two decimals, while the rate computed is the float64
  below 14.375 and the report shows 14.37%.
\<close>

theorem successRate_not_the_quotient:
  "length (pingResults ex_pm_7_of_25) = 7 \<and> length (unreachableTimes ex_pm_7_of_25) = 18 \<and>
   spec_successRate 7 18 = 7 / 25 \<and>
   successRate ex_pm_7_of_25 = 7881299347898369 / 281474976710656 \<and>
   successRate ex_pm_7_of_25 \<noteq> spec_successRate 7 18 \<and>
   successRate ex_pm_7_of_25 \<noteq> 100 * spec_successRate 7 18 \<and>
   length (pingResults ex_pm_23_of_160) = 23 \<and> length (unreachableTimes ex_pm_23_of_160) = 137 \<and>
   100 * spec_successRate 23 137 = 115 / 8 \<and>
   fmtFixed 2 (100 * spec_successRate 23 137) = ''14.38'' \<and>
   successRate ex_pm_23_of_160 = 8092405580431359 / 562949953421312 \<and>
   Print (''  '' @ ja_success_rate @ '': 14.37%\<newline>'') \<in> set (printDailyReport ex_pm_23_of_160 ''2024-01-01'')"
  by code_simp

text \<open>
  C2, amended. For every accumulator state, the success rate that the daily report shows,
  with two decimals in the reachability field of the embed and in the success-rate line of
  the console report, is \<open>successRate\<close>: it is 0 when there is no sample, and with a sample
  (and fewer than \<open>2 ^ 53\<close> of them) it differs from the exact percentage
  100 * successes / (successes + failures) by at most \<open>100 / 2 ^ 51\<close>.
\<close>

theorem successRate_percentage:
  "(let successes = length (pingResults pm); failures = length (unreachableTimes pm)
    in Value (Fields (dailyEmbed pm d t) ! 1) =
         ''**'' @ ja_success_rate @ ''**: '' @ fmtFixed 2 (successRate pm) @
         ''%\<newline>**'' @ ja_success_count @ ''**: '' @ fmtD (int successes) @
         ''\<newline>**'' @ ja_failure_count @ ''**: '' @ fmtD (int failures) \<and>
       Print (''  '' @ ja_success_rate @ '': '' @ fmtFixed 2 (successRate pm) @ ''%\<newline>'')
         \<in> set (printDailyReport pm d) \<and>
       (successes + failures = 0 \<longrightarrow> successRate pm = 0) \<and>
       (0 < successes + failures \<and> successes + failures < 2 ^ 53 \<longrightarrow>
          \<bar>successRate pm - 100 * spec_successRate successes failures\<bar> \<le> 100 / 2 ^ 51))"
proof -
  have z: "length (pingResults pm) + length (unreachableTimes pm) = 0 \<longrightarrow> successRate pm = 0"
    by (simp add: successRate_def totalPings_def)
  have a: "0 < length (pingResults pm) + length (unreachableTimes pm) \<and>
      length (pingResults pm) + length (unreachableTimes pm) < 2 ^ 53 \<longrightarrow>
      \<bar>successRate pm - 100 * spec_successRate (length (pingResults pm)) (length (unreachableTimes pm))\<bar>
        \<le> 100 / 2 ^ 51"
    using successRate_accuracy [of "length (pingResults pm)" "length (unreachableTimes pm)" pm]
    by blast
  have e: "Value (Fields (dailyEmbed pm d t) ! 1) =
      ''**'' @ ja_success_rate @ ''**: '' @ fmtFixed 2 (successRate pm) @
      ''%\<newline>**'' @ ja_success_count @ ''**: '' @ fmtD (int (length (pingResults pm))) @
      ''\<newline>**'' @ ja_failure_count @ ''**: '' @ fmtD (int (length (unreachableTimes pm)))"
    unfolding Fields_dailyEmbed_1 by simp
  show ?thesis
    unfolding Let_def
    using e printDailyReport_reachability(1) [of pm d] z a by (intro conjI)
qed

theorem successRate_percentage_witness:
  "length (pingResults ex_pm) + length (unreachableTimes ex_pm) = 0 \<and>
   successRate ex_pm = 0 \<and>
   Print (''  '' @ ja_success_rate @ '': 0.00%\<newline>'') \<in> set (printDailyReport ex_pm ''2024-01-01'') \<and>
   0 < length (pingResults ex_pm_7_of_25) + length (unreachableTimes ex_pm_7_of_25) \<and>
   length (pingResults ex_pm_7_of_25) + length (unreachableTimes ex_pm_7_of_25) < 2 ^ 53 \<and>
   \<bar>successRate ex_pm_7_of_25 - 100 * spec_successRate 7 18\<bar> \<le> 100 / 2 ^ 51 \<and>
   Print (''  '' @ ja_success_rate @ '': 28.00%\<newline>'')
     \<in> set (printDailyReport ex_pm_7_of_25 ''2024-01-01'')"
proof -
  have l: "length (pingResults ex_pm) = 0" "length (unreachableTimes ex_pm) = 0"
    "length (pingResults ex_pm_7_of_25) = 7" "length (unreachableTimes ex_pm_7_of_25) = 18"
    by (simp_all add: ex_pm_7_of_25_def ex_pm_def)
  have f: "fmtFixed 2 (successRate ex_pm_7_of_25) = ''28.00''" "fmtFixed 2 0 = ''0.00''"
    by code_simp+
  note t1 = successRate_percentage [of ex_pm "''2024-01-01''" ex_clock2, unfolded Let_def l]
  note t2 = successRate_percentage [of ex_pm_7_of_25 "''2024-01-01''" ex_clock2, unfolded Let_def l f]
  have z: "successRate ex_pm = 0" using t1 by simp
  show ?thesis
    using t1 t2 unfolding l z f by simp
qed

subsection \<open>C3: stopping twice\<close>

text \<open>
  C3 as stated, that a second \<open>Stop\<close> neither sends a second report nor fails, does not
  hold: the second call closes \<open>stopChan\<close> a second time, which panics.
\<close>

theorem Stop_twice_second_call_panics:
  "snd (Stop ex_clock2 ex_env ex_pm_failures_only) = Inr ex_pm_stopped \<and>
   Stop ex_clock2 ex_env ex_pm_stopped = ([], Inl CloseOfClosedChannel)"
  by (simp add: Stop_def Let_def ex_pm_stopped_def ex_pm_failures_only_def ex_pm_def)

text \<open>
  C3, amended. On a monitor whose \<open>stopChan\<close> is open, \<open>Stop\<close> returns, having flushed
  one report when the DayLog has content and none otherwise; a second \<open>Stop\<close> on the
  monitor it leaves panics on closing the closed channel before it does anything else,
  so it sends no second report, and it does not return.
\<close>

theorem Stop_twice:
  "stopChan pm = ChanOpen \<Longrightarrow>
     (case snd (Stop today env pm) of
        Inl p \<Rightarrow> False
      | Inr pm1 \<Rightarrow>
          fst (Stop today env pm) =
            (if pingResults pm \<noteq> [] \<or> unreachableTimes pm \<noteq> []
             then Print (ja_sending_stats @ ''...\<newline>'') # sendDailyReport env pm1 (formatDate today)
             else []) \<and>
          Stop today' env' pm1 = ([], Inl CloseOfClosedChannel))"
  by (simp add: Stop_def Let_def)

theorem Stop_twice_witness:
  "stopChan ex_pm_failures_only = ChanOpen \<and>
   snd (Stop ex_clock2 ex_env ex_pm_failures_only) = Inr ex_pm_stopped \<and>
   fst (Stop ex_clock2 ex_env ex_pm_failures_only) =
     Print (ja_sending_stats @ ''...\<newline>'') # sendDailyReport ex_env ex_pm_stopped ''2024-01-02'' \<and>
   Stop ex_clock2 ex_env_500 ex_pm_stopped = ([], Inl CloseOfClosedChannel)"
proof -
  have h: "stopChan ex_pm_failures_only = ChanOpen"
    by (simp add: ex_pm_failures_only_def ex_pm_def)
  have s: "snd (Stop ex_clock2 ex_env ex_pm_failures_only) = Inr ex_pm_stopped"
    by (simp add: Stop_def Let_def ex_pm_stopped_def ex_pm_failures_only_def ex_pm_def)
  have d: "formatDate ex_clock2 = ''2024-01-02''"
    by code_simp
  have u: "unreachableTimes ex_pm_failures_only = [ex_clock1]"
    by (simp add: ex_pm_failures_only_def ex_pm_def)
  show ?thesis
    using h s d u Stop_twice [OF h, of ex_clock2 ex_env ex_clock2 ex_env_500]
    by simp
qed

subsection \<open>C4: the flush at shutdown\<close>

text \<open>
  C4. When \<open>Stop\<close> runs (on a monitor whose \<open>stopChan\<close> is open), a DayLog with at least
  one success or one failure makes it announce and send the daily report for the current
  date, and the success samples and failure timestamps are the same after the flush as
  before; with an empty DayLog \<open>Stop\<close> has no event at all, so \<open>sendDailyReport\<close>,
  which always has one, was not invoked.
\<close>

theorem Stop_flush_frame:
  "stopChan pm = ChanOpen \<Longrightarrow>
     (case snd (Stop today env pm) of
        Inl p \<Rightarrow> False
      | Inr pm' \<Rightarrow>
          pingResults pm' = pingResults pm \<and> unreachableTimes pm' = unreachableTimes pm \<and>
          fst (Stop today env pm) =
            (if pingResults pm \<noteq> [] \<or> unreachableTimes pm \<noteq> []
             then Print (ja_sending_stats @ ''...\<newline>'') # sendDailyReport env pm' (formatDate today)
             else [])) \<and>
     sendDailyReport env pm (formatDate today) \<noteq> []"
  by (simp add: Stop_def Let_def sendDailyReport_nonempty)

theorem Stop_flush_frame_witness:
  "stopChan ex_pm_failures_only = ChanOpen \<and>
   snd (Stop ex_clock2 ex_env ex_pm_failures_only) = Inr ex_pm_stopped \<and>
   unreachableTimes ex_pm_stopped = unreachableTimes ex_pm_failures_only \<and>
   pingResults ex_pm_stopped = pingResults ex_pm_failures_only \<and>
   fst (Stop ex_clock2 ex_env ex_pm_failures_only) =
     Print (ja_sending_stats @ ''...\<newline>'') # sendDailyReport ex_env ex_pm_stopped ''2024-01-02'' \<and>
   Stop ex_clock2 ex_env ex_pm = ([], Inr (ex_pm\<lparr>running := False, stopChan := ChanClosed\<rparr>))"
proof -
  have h: "stopChan ex_pm_failures_only = ChanOpen" "stopChan ex_pm = ChanOpen"
    by (simp_all add: ex_pm_failures_only_def ex_pm_def)
  have s: "snd (Stop ex_clock2 ex_env ex_pm_failures_only) = Inr ex_pm_stopped"
    "snd (Stop ex_clock2 ex_env ex_pm) = Inr (ex_pm\<lparr>running := False, stopChan := ChanClosed\<rparr>)"
    by (simp_all add: Stop_def Let_def ex_pm_stopped_def ex_pm_failures_only_def ex_pm_def)
  have d: "formatDate ex_clock2 = ''2024-01-02''"
    by code_simp
  have u: "unreachableTimes ex_pm_failures_only = [ex_clock1]" "pingResults ex_pm_failures_only = []"
    "unreachableTimes ex_pm = []" "pingResults ex_pm = []"
    by (simp_all add: ex_pm_failures_only_def ex_pm_def)
  show ?thesis
    using h s d u Stop_flush_frame [OF h(1), of ex_clock2 ex_env]
      Stop_flush_frame [OF h(2), of ex_clock2 ex_env]
    by (simp add: prod_eq_iff)
qed

subsection \<open>C5: minimum, average and maximum\<close>

text \<open>
  C5 as stated, that the reported minimum, average and maximum satisfy
  min \<le> average \<le> max, does not hold in float64: the running sum and the quotient are
  rounded. After six probes of 1.15 ms each, the average the code computes is one unit in
  the last place above the maximum, and the report shows an average of 1.2 ms beside a
  maximum of 1.1 ms.
\<close>

theorem latency_average_above_maximum:
  "reportStats ex_pm_six =
     (5179139571476071 / 4503599627370496, 5179139571476070 / 4503599627370496,
      5179139571476070 / 4503599627370496) \<and>
   fmtFixed 1 (fst (reportStats ex_pm_six)) = ''1.2'' \<and>
   fmtFixed 1 (fst (snd (reportStats ex_pm_six))) = ''1.1'' \<and>
   \<not> fst (reportStats ex_pm_six) \<le> fst (snd (reportStats ex_pm_six))"
  by code_simp

text \<open>
  C5, amended. For every non-empty list of recorded success latencies, none negative (as
  \<open>pingHost\<close> returns them), at most \<open>2 ^ 52\<close> in number and of sum at most \<open>2 ^ 1022\<close>:
  the reported minimum and maximum are the least and the greatest of them, and the
  arithmetic mean lies between the two; the reported average differs from the arithmetic
  mean by at most the tolerance mean * (count + 1) / \<open>2 ^ 52\<close> + \<open>2 ^ - 1073\<close>, and therefore
  lies between the minimum and the maximum up to that tolerance. The running sum stays
  below \<open>2 ^ 1024\<close>, so that no operation of Go overflows in this range (the same holds
  for every prefix of the list, which satisfies the same conditions).
\<close>

theorem latencyStats_accuracy:
  assumes ne: "pingResults pm \<noteq> []"
    and nonneg: "\<forall>r\<in>set (pingResults pm). 0 \<le> ResponseTime r"
    and len: "length (pingResults pm) \<le> 2 ^ 52"
    and range: "sum_list (map ResponseTime (pingResults pm)) \<le> 2 ^ 1022"
  shows "(let latencies = map ResponseTime (pingResults pm);
              (avgTime, maxTime, minTime) = reportStats pm;
              mean = sum_list latencies / of_nat (length latencies);
              tolerance = mean * of_nat (length latencies + 1) / 2 ^ 52 + 1 / 2 ^ 1073
          in minTime = Min (set latencies) \<and> maxTime = Max (set latencies) \<and>
             minTime \<le> maxTime \<and> minTime \<le> mean \<and> mean \<le> maxTime \<and>
             \<bar>avgTime - mean\<bar> \<le> tolerance \<and>
             minTime - tolerance \<le> avgTime \<and> avgTime \<le> maxTime + tolerance \<and>
             foldl fadd 0 latencies < 2 ^ 1024)"
proof -
  define ls where "ls = map ResponseTime (pingResults pm)"
  define mean where "mean = sum_list ls / of_nat (length ls)"
  define tol where "tol = mean * of_nat (length ls + 1) / 2 ^ 52 + 1 / 2 ^ 1073"
  define avg where "avg = fdiv (foldl fadd 0 ls) (float64_of_int (int (length ls)))"
  have ls: "ls \<noteq> []" using ne by (simp add: ls_def)
  have ls0: "\<forall>x\<in>set ls. 0 \<le> x" using nonneg by (simp add: ls_def)
  have l52: "length ls \<le> 2 ^ 52" using len by (simp add: ls_def)
  have n: "0 < (of_nat (length ls) :: rat)" using ls by simp
  have mm: "Min (set ls) \<le> Max (set ls)" using ls by simp
  have lo: "Min (set ls) \<le> mean"
    unfolding mean_def using sum_list_bounds(1) [OF ls] n by (simp add: pos_le_divide_eq)
  have hi: "mean \<le> Max (set ls)"
    unfolding mean_def using sum_list_bounds(2) [OF ls] n by (simp add: pos_divide_le_eq)
  have err: "\<bar>avg - mean\<bar> \<le> tol"
    unfolding avg_def mean_def tol_def by (rule average_error [OF ls ls0 l52])
  have b1: "Min (set ls) - tol \<le> avg" and b2: "avg \<le> Max (set ls) + tol"
    using err lo hi by linarith+
  have fin: "foldl fadd 0 ls < 2 ^ 1024"
    using foldl_fadd_finite [OF ls0 l52] range by (simp add: ls_def)
  have rs: "reportStats pm = (avg, Max (set ls), Min (set ls))"
    using ne latencyStats_eq [OF ne] by (simp add: reportStats_def avg_def ls_def)
  have "Min (set ls) = Min (set ls) \<and> Max (set ls) = Max (set ls) \<and>
      Min (set ls) \<le> Max (set ls) \<and> Min (set ls) \<le> mean \<and> mean \<le> Max (set ls) \<and>
      \<bar>avg - mean\<bar> \<le> tol \<and> Min (set ls) - tol \<le> avg \<and> avg \<le> Max (set ls) + tol \<and>
      foldl fadd 0 ls < 2 ^ 1024"
    using mm lo hi err b1 b2 fin by (intro conjI refl)
  then show ?thesis
    unfolding Let_def rs prod.case ls_def [symmetric] mean_def [symmetric] tol_def [symmetric] .
qed

theorem latencyStats_accuracy_witness:
  "pingResults ex_pm_six \<noteq> [] \<and>
   list_all (\<lambda>r. 0 \<le> ResponseTime r) (pingResults ex_pm_six) \<and>
   length (pingResults ex_pm_six) \<le> 2 ^ 52 \<and>
   sum_list (map ResponseTime (pingResults ex_pm_six)) \<le> 2 ^ 1022 \<and>
   reportStats ex_pm_six =
     (5179139571476071 / 4503599627370496, 5179139571476070 / 4503599627370496,
      5179139571476070 / 4503599627370496) \<and>
   sum_list (map ResponseTime (pingResults ex_pm_six)) / 6 = 5179139571476070 / 4503599627370496 \<and>
   5179139571476071 / 4503599627370496 \<le>
     5179139571476070 / 4503599627370496 +
     (5179139571476070 / 4503599627370496 * 7 / 2 ^ 52 + 1 / 2 ^ 1073 :: rat)"
proof -
  have ne: "pingResults ex_pm_six \<noteq> []"
    by (simp add: ex_pm_six_def ex_pm_def)
  have pos: "list_all (\<lambda>r. 0 \<le> ResponseTime r) (pingResults ex_pm_six)"
    by code_simp
  then have pos': "\<forall>r\<in>set (pingResults ex_pm_six). 0 \<le> ResponseTime r"
    by (simp only: list_all_iff)
  have l: "length (pingResults ex_pm_six) = 6"
    by (simp add: ex_pm_six_def ex_pm_def)
  have len: "length (pingResults ex_pm_six) \<le> 2 ^ 52"
    unfolding l by simp
  have s: "sum_list (map ResponseTime (pingResults ex_pm_six)) = 6 * (5179139571476070 / 4503599627370496)"
    by (simp add: ex_pm_six_def ex_pm_def ex_sample_def sum_list_replicate)
  have range: "sum_list (map ResponseTime (pingResults ex_pm_six)) \<le> 2 ^ 1022"
    unfolding s by simp
  have r: "reportStats ex_pm_six =
     (5179139571476071 / 4503599627370496, 5179139571476070 / 4503599627370496,
      5179139571476070 / 4503599627370496)"
    by code_simp
  have m: "sum_list (map ResponseTime (pingResults ex_pm_six)) / 6 = 5179139571476070 / 4503599627370496"
    unfolding s by simp
  note t = latencyStats_accuracy [OF ne pos' len range, unfolded Let_def r prod.case]
  from t have "5179139571476071 / 4503599627370496 \<le>
     5179139571476070 / 4503599627370496 +
     (sum_list (map ResponseTime (pingResults ex_pm_six)) /
      of_nat (length (map ResponseTime (pingResults ex_pm_six))) *
      of_nat (length (map ResponseTime (pingResults ex_pm_six)) + 1) / 2 ^ 52 + 1 / 2 ^ 1073)"
    by (elim conjE)
  then have b: "5179139571476071 / 4503599627370496 \<le>
     5179139571476070 / 4503599627370496 +
     (5179139571476070 / 4503599627370496 * 7 / 2 ^ 52 + 1 / 2 ^ 1073 :: rat)"
    unfolding length_map l s by simp
  show ?thesis
    using ne pos len range r m b by (intro conjI)
qed

subsection \<open>C6: delivery\<close>

text \<open>
  C6. With a webhook URL that is empty or contains the placeholder, \<open>sendDailyReport\<close>
  prints a notice and the console report, and makes no network call. With any other URL
  it makes exactly one call of \<^verbatim>\<open>http.Post\<close>. A transport error is returned as it is, and a
  status other than 204 as an error whose message carries the status code and the body;
  in both cases \<open>sendDailyReport\<close> prints the error and then the console rendering of the
  same report. On status 204 it prints the confirmation only.
\<close>

theorem sendDailyReport_delivery:
  "(let url = DiscordWebhookURL (config pm);
        message = \<lparr>Embeds = [dailyEmbed pm d (clock env)]\<rparr>;
        failed = (\<lambda>e. HttpPost url message #
                   Print (emoji_cross @ '' Discord'' @ ja_send_error @ '': '' @ e @ ''\<newline>'') #
                   printDailyReport pm d)
    in (notConfigured pm \<longrightarrow>
          sendDailyReport env pm d =
            Print (''Discord Webhook URL'' @ ja_not_configured @ ''\<newline>'') # printDailyReport pm d \<and>
          filter isHttpPost (sendDailyReport env pm d) = []) \<and>
       (\<not> notConfigured pm \<longrightarrow>
          filter isHttpPost (sendDailyReport env pm d) = [HttpPost url message] \<and>
          sendDailyReport env pm d =
            (case response env of
               TransportError e \<Rightarrow> failed e
             | Response statusCode body \<Rightarrow>
                 if statusCode = 204
                 then [HttpPost url message,
                       Print (emoji_check @ '' '' @ d @ ja_daily_report_of @ ''Discord'' @
                              ja_was_sent @ ''\<newline>'')]
                 else failed (''Discord API error: '' @ fmtD statusCode @ '' - '' @ body))) \<and>
       sendToDiscord (response env) pm message =
         ([HttpPost url message],
          case response env of
            TransportError e \<Rightarrow> Some e
          | Response statusCode body \<Rightarrow>
              if statusCode = 204 then None
              else Some (''Discord API error: '' @ fmtD statusCode @ '' - '' @ body)))"
  by (auto simp: Let_def sendDailyReport_def sendToDiscord_def filter_post_printDailyReport
      split: http_result.splits)

theorem sendDailyReport_delivery_witness:
  "notConfigured ex_pm \<and> notConfigured ex_pm_placeholder \<and>
   filter isHttpPost (sendDailyReport ex_env ex_pm_placeholder ''2024-01-01'') = [] \<and>
   \<not> notConfigured ex_pm_hook \<and>
   sendDailyReport ex_env_500 ex_pm_hook ''2024-01-01'' =
     HttpPost ''https://discord.com/api/webhooks/1/token''
       \<lparr>Embeds = [dailyEmbed ex_pm_hook ''2024-01-01'' ex_clock2]\<rparr> #
     Print (emoji_cross @ '' Discord'' @ ja_send_error @
            '': Discord API error: 500 - Internal Server Error\<newline>'') #
     printDailyReport ex_pm_hook ''2024-01-01'' \<and>
   filter isHttpPost (sendDailyReport ex_env_500 ex_pm_hook ''2024-01-01'') =
     [HttpPost ''https://discord.com/api/webhooks/1/token''
        \<lparr>Embeds = [dailyEmbed ex_pm_hook ''2024-01-01'' ex_clock2]\<rparr>]"
proof -
  have p: "notConfigured ex_pm" "notConfigured ex_pm_placeholder"
    by code_simp+
  have h: "\<not> notConfigured ex_pm_hook"
    by code_simp
  have e: "response ex_env_500 = Response 500 ''Internal Server Error''" "clock ex_env_500 = ex_clock2"
    "DiscordWebhookURL (config ex_pm_hook) = ''https://discord.com/api/webhooks/1/token''"
    by (simp_all add: ex_env_500_def ex_pm_hook_def)
  have c: "fmtD 500 = ''500''"
    by code_simp
  show ?thesis
    using p h e c sendDailyReport_delivery [of ex_pm_placeholder "''2024-01-01''" ex_env]
      sendDailyReport_delivery [of ex_pm_hook "''2024-01-01''" ex_env_500]
    by (simp add: Let_def filter_post_printDailyReport)
qed

subsection \<open>C7: the failure-periods field\<close>

text \<open>
  C7. For every list of failure timestamps, the field that \<open>formatUnreachablePeriods\<close>
  renders holds the first timestamps, at most 10 of them, one per line; a last line that
  states how many were left out is there exactly when the list has more than 10; the
  field is cut to 1020 bytes and three dots when it would be longer than 1024 bytes, so
  it never is. (For the timestamps and lengths that Go has, it is at most 119 bytes long
  and is never cut.)
\<close>

theorem formatUnreachablePeriods_capped:
  "(let ts = unreachableTimes pm;
        entries = map formatClock (take 10 ts);
        more = (if 10 < length ts
                then [''... '' @ ja_others @ fmtD (int (length ts) - 10) @ ja_items] else []);
        u = join (entries @ more) ''\<newline>''
    in length entries \<le> 10 \<and>
       (more \<noteq> [] \<longleftrightarrow> 10 < length ts) \<and>
       formatUnreachablePeriods pm =
         (if ts = [] then ja_none else if 1024 < length u then take 1020 u @ ''...'' else u) \<and>
       length (formatUnreachablePeriods pm) \<le> 1024 \<and>
       ((\<forall>t\<in>set ts. wf_time t) \<and> length ts < 2 ^ 63 \<and> ts \<noteq> [] \<longrightarrow>
          formatUnreachablePeriods pm = u))"
proof -
  let ?ts = "unreachableTimes pm"
  let ?u = "join (failureLines ?ts) ''\<newline>''"
  have shape: "formatUnreachablePeriods pm =
      (if ?ts = [] then ja_none else if 1024 < length ?u then take 1020 ?u @ ''...'' else ?u)"
    using formatUnreachablePeriods_join [of pm]
    by (auto simp: Let_def formatUnreachablePeriods_def)
  have cap: "length (formatUnreachablePeriods pm) \<le> 1024"
    unfolding shape by (simp add: ja_none_def)
  have exact: "formatUnreachablePeriods pm = ?u"
    if "\<forall>t\<in>set ?ts. wf_time t" "length ?ts < 2 ^ 63" "?ts \<noteq> []"
    using formatUnreachablePeriods_exact [OF that] .
  show ?thesis
    using shape cap exact by (simp add: Let_def failureLines_def)
qed

theorem formatUnreachablePeriods_capped_witness:
  "list_all wf_time (unreachableTimes ex_pm_twelve) \<and>
   length (unreachableTimes ex_pm_twelve) = 12 \<and>
   formatUnreachablePeriods ex_pm_twelve =
     ''23:59:00\<newline>23:59:01\<newline>23:59:02\<newline>23:59:03\<newline>23:59:04\<newline>'' @
     ''23:59:05\<newline>23:59:06\<newline>23:59:07\<newline>23:59:08\<newline>23:59:09\<newline>'' @
     ''... '' @ ja_others @ ''2'' @ ja_items \<and>
   length (formatUnreachablePeriods ex_pm_twelve) \<le> 1024"
proof -
  have w: "list_all wf_time (unreachableTimes ex_pm_twelve)"
    by code_simp
  have l: "length (unreachableTimes ex_pm_twelve) = 12"
    by code_simp
  have v: "formatUnreachablePeriods ex_pm_twelve =
     ''23:59:00\<newline>23:59:01\<newline>23:59:02\<newline>23:59:03\<newline>23:59:04\<newline>'' @
     ''23:59:05\<newline>23:59:06\<newline>23:59:07\<newline>23:59:08\<newline>23:59:09\<newline>'' @
     ''... '' @ ja_others @ ''2'' @ ja_items"
    by code_simp
  have c: "length (formatUnreachablePeriods ex_pm_twelve) \<le> 1024"
    using formatUnreachablePeriods_capped [of ex_pm_twelve, unfolded Let_def]
    by (elim conjE)
  show ?thesis
    using w l v c by simp
qed

subsection \<open>C8: the two renderings\<close>

text \<open>
  C8 as stated, that the console report is never missing information present in the
  embed, and shows the same average, maximum and minimum latency, does not hold. After a
  day on which every probe failed, the embed has its latency field, with an average, a
  maximum and a minimum of 0.0ms, and the console report has no latency line at all:
  its latency block is printed only when there is a success (main.go 443). In every
  state the third field of the embed shows the monitoring interval (here 1s), which the
  console report never prints.
\<close>

theorem console_lacks_latency_and_interval:
  "pingResults ex_pm_failures_only = [] \<and> unreachableTimes ex_pm_failures_only = [ex_clock1] \<and>
   Value (Fields (dailyEmbed ex_pm_failures_only ''2024-01-01'' ex_clock2) ! 0) =
     ''**'' @ ja_average @ ''**: 0.0ms\<newline>**'' @ ja_maximum @ ''**: 0.0ms\<newline>**'' @
     ja_minimum @ ''**: 0.0ms'' \<and>
   Value (Fields (dailyEmbed ex_pm_failures_only ''2024-01-01'' ex_clock2) ! 2) =
     ''**'' @ ja_total @ ''ping'' @ ja_count @ ''**: 1\<newline>**'' @ ja_interval @ ''**: 1s'' \<and>
   printDailyReport ex_pm_failures_only ''2024-01-01'' =
     [Print (''\<newline>'' @ repeat ''='' 50 @ ''\<newline>''),
      Print (emoji_bar_chart @ '' Ping Monitor '' @ ja_daily_report @ '' - 2024-01-01\<newline>''),
      Print (repeat ''='' 50 @ ''\<newline>''),
      Print (ja_target @ '': Google (8.8.8.8)\<newline>''),
      Print (ja_source @ '': 192.168.1.100\<newline>''),
      Print (''\<newline>'' @ emoji_chart_up @ '' '' @ ja_reachability_stats @ '':\<newline>''),
      Print (''  '' @ ja_success_rate @ '': 0.00%\<newline>''),
      Print (''  '' @ ja_success_count @ '': 0\<newline>''),
      Print (''  '' @ ja_failure_count @ '': 1\<newline>''),
      Print (''  '' @ ja_total @ ''ping'' @ ja_count @ '': 1\<newline>''),
      Print (''\<newline>'' @ emoji_warning @ '' '' @ ja_unreachable_times @ '':\<newline>''),
      Print ''  23:59:59\<newline>'',
      Print (repeat ''='' 50 @ ''\<newline>\<newline>'')] \<and>
   \<not> consoleShows (printDailyReport ex_pm_failures_only ''2024-01-01'') ja_average \<and>
   \<not> consoleShows (printDailyReport ex_pm_failures_only ''2024-01-01'') ja_maximum \<and>
   \<not> consoleShows (printDailyReport ex_pm_failures_only ''2024-01-01'') ja_minimum \<and>
   \<not> consoleShows (printDailyReport ex_pm_failures_only ''2024-01-01'') ''0.0ms'' \<and>
   \<not> consoleShows (printDailyReport ex_pm_failures_only ''2024-01-01'') ja_interval \<and>
   \<not> consoleShows (printDailyReport ex_pm_failures_only ''2024-01-01'') ''1s'' \<and>
   consoleShows (printDailyReport ex_pm_failures_only ''2024-01-01'') ja_total"
  by code_simp

text \<open>
  C8, amended. For every accumulator state, the embed sent to the webhook and the console
  report are rendered from the same numbers: the success rate, the count of successes,
  the count of failures and the total appear in both. The embed always has its latency
  field; the console report prints the same average, maximum and minimum exactly when
  there is a success, and with no success the embed shows 0.0 three times and the
  console report no latency line. When there is a failure, the embed has its fourth
  field, which (for the timestamps and lengths that Go has) joins the very lines of
  failure times that the console report prints. The console report consists of the lines
  listed, and of no other: the monitoring interval of the embed is not among them.
\<close>

theorem renderings_agree:
  "(let embed = dailyEmbed pm d t; console = printDailyReport pm d;
        rate = fmtFixed 2 (successRate pm);
        successes = fmtD (int (length (pingResults pm)));
        failures = fmtD (int (length (unreachableTimes pm)));
        total = fmtD (totalPings pm);
        avgTime = fmtFixed 1 (fst (reportStats pm));
        maxTime = fmtFixed 1 (fst (snd (reportStats pm)));
        minTime = fmtFixed 1 (snd (snd (reportStats pm)));
        failureTimes = failureLines (unreachableTimes pm)
    in Value (Fields embed ! 1) =
         ''**'' @ ja_success_rate @ ''**: '' @ rate @ ''%\<newline>**'' @
         ja_success_count @ ''**: '' @ successes @ ''\<newline>**'' @
         ja_failure_count @ ''**: '' @ failures \<and>
       Print (''  '' @ ja_success_rate @ '': '' @ rate @ ''%\<newline>'') \<in> set console \<and>
       Print (''  '' @ ja_success_count @ '': '' @ successes @ ''\<newline>'') \<in> set console \<and>
       Print (''  '' @ ja_failure_count @ '': '' @ failures @ ''\<newline>'') \<in> set console \<and>
       Value (Fields embed ! 2) =
         ''**'' @ ja_total @ ''ping'' @ ja_count @ ''**: '' @ total @
         ''\<newline>**'' @ ja_interval @ ''**: '' @ durationString (pingInterval pm) \<and>
       Print (''  '' @ ja_total @ ''ping'' @ ja_count @ '': '' @ total @ ''\<newline>'') \<in> set console \<and>
       Value (Fields embed ! 0) =
         ''**'' @ ja_average @ ''**: '' @ avgTime @ ''ms\<newline>**'' @
         ja_maximum @ ''**: '' @ maxTime @ ''ms\<newline>**'' @
         ja_minimum @ ''**: '' @ minTime @ ''ms'' \<and>
       (pingResults pm \<noteq> [] \<longrightarrow>
          Print (''  '' @ ja_average @ '': '' @ avgTime @ ''ms\<newline>'') \<in> set console \<and>
          Print (''  '' @ ja_maximum @ '': '' @ maxTime @ ''ms\<newline>'') \<in> set console \<and>
          Print (''  '' @ ja_minimum @ '': '' @ minTime @ ''ms\<newline>'') \<in> set console) \<and>
       (pingResults pm = [] \<longrightarrow> avgTime = ''0.0'' \<and> maxTime = ''0.0'' \<and> minTime = ''0.0'') \<and>
       (unreachableTimes pm = [] \<longrightarrow> length (Fields embed) = 3) \<and>
       (unreachableTimes pm \<noteq> [] \<longrightarrow>
          length (Fields embed) = 4 \<and>
          Value (Fields embed ! 3) = formatUnreachablePeriods pm \<and>
          ((\<forall>t\<in>set (unreachableTimes pm). wf_time t) \<and> length (unreachableTimes pm) < 2 ^ 63 \<longrightarrow>
             formatUnreachablePeriods pm = join failureTimes ''\<newline>'') \<and>
          (\<forall>l\<in>set failureTimes. Print (''  '' @ l @ ''\<newline>'') \<in> set console)) \<and>
       console =
         [Print (''\<newline>'' @ repeat ''='' 50 @ ''\<newline>''),
          Print (emoji_bar_chart @ '' Ping Monitor '' @ ja_daily_report @ '' - '' @ d @ ''\<newline>''),
          Print (repeat ''='' 50 @ ''\<newline>''),
          Print (ja_target @ '': Google (8.8.8.8)\<newline>''),
          Print (ja_source @ '': '' @ localIP pm @ ''\<newline>'')] @
         (if pingResults pm \<noteq> [] then
            [Print (''\<newline>'' @ emoji_bar_chart @ '' '' @ ja_response_time_stats @ '':\<newline>''),
             Print (''  '' @ ja_average @ '': '' @ avgTime @ ''ms\<newline>''),
             Print (''  '' @ ja_maximum @ '': '' @ maxTime @ ''ms\<newline>''),
             Print (''  '' @ ja_minimum @ '': '' @ minTime @ ''ms\<newline>'')]
          else []) @
         [Print (''\<newline>'' @ emoji_chart_up @ '' '' @ ja_reachability_stats @ '':\<newline>''),
          Print (''  '' @ ja_success_rate @ '': '' @ rate @ ''%\<newline>''),
          Print (''  '' @ ja_success_count @ '': '' @ successes @ ''\<newline>''),
          Print (''  '' @ ja_failure_count @ '': '' @ failures @ ''\<newline>''),
          Print (''  '' @ ja_total @ ''ping'' @ ja_count @ '': '' @ total @ ''\<newline>'')] @
         (if unreachableTimes pm \<noteq> [] then
            Print (''\<newline>'' @ emoji_warning @ '' '' @ ja_unreachable_times @ '':\<newline>'') #
            map (\<lambda>l. Print (''  '' @ l @ ''\<newline>'')) failureTimes
          else []) @
         [Print (repeat ''='' 50 @ ''\<newline>\<newline>'')])"
proof -
  have z: "pingResults pm = [] \<longrightarrow>
      fmtFixed 1 (fst (reportStats pm)) = ''0.0'' \<and> fmtFixed 1 (fst (snd (reportStats pm))) = ''0.0'' \<and>
      fmtFixed 1 (snd (snd (reportStats pm))) = ''0.0''"
    using fmtFixed_1_zero by (simp add: reportStats_no_success)
  have old: "Value (Fields (dailyEmbed pm d t) ! 1) =
         ''**'' @ ja_success_rate @ ''**: '' @ fmtFixed 2 (successRate pm) @ ''%\<newline>**'' @
         ja_success_count @ ''**: '' @ fmtD (int (length (pingResults pm))) @ ''\<newline>**'' @
         ja_failure_count @ ''**: '' @ fmtD (int (length (unreachableTimes pm))) \<and>
       Print (''  '' @ ja_success_rate @ '': '' @ fmtFixed 2 (successRate pm) @ ''%\<newline>'') \<in> set (printDailyReport pm d) \<and>
       Print (''  '' @ ja_success_count @ '': '' @ fmtD (int (length (pingResults pm))) @ ''\<newline>'') \<in> set (printDailyReport pm d) \<and>
       Print (''  '' @ ja_failure_count @ '': '' @ fmtD (int (length (unreachableTimes pm))) @ ''\<newline>'') \<in> set (printDailyReport pm d) \<and>
       Value (Fields (dailyEmbed pm d t) ! 2) =
         ''**'' @ ja_total @ ''ping'' @ ja_count @ ''**: '' @ fmtD (totalPings pm) @
         ''\<newline>**'' @ ja_interval @ ''**: '' @ durationString (pingInterval pm) \<and>
       Print (''  '' @ ja_total @ ''ping'' @ ja_count @ '': '' @ fmtD (totalPings pm) @ ''\<newline>'') \<in> set (printDailyReport pm d) \<and>
       Value (Fields (dailyEmbed pm d t) ! 0) =
         ''**'' @ ja_average @ ''**: '' @ fmtFixed 1 (fst (reportStats pm)) @ ''ms\<newline>**'' @
         ja_maximum @ ''**: '' @ fmtFixed 1 (fst (snd (reportStats pm))) @ ''ms\<newline>**'' @
         ja_minimum @ ''**: '' @ fmtFixed 1 (snd (snd (reportStats pm))) @ ''ms'' \<and>
       (pingResults pm \<noteq> [] \<longrightarrow>
          Print (''  '' @ ja_average @ '': '' @ fmtFixed 1 (fst (reportStats pm)) @ ''ms\<newline>'') \<in> set (printDailyReport pm d) \<and>
          Print (''  '' @ ja_maximum @ '': '' @ fmtFixed 1 (fst (snd (reportStats pm))) @ ''ms\<newline>'') \<in> set (printDailyReport pm d) \<and>
          Print (''  '' @ ja_minimum @ '': '' @ fmtFixed 1 (snd (snd (reportStats pm))) @ ''ms\<newline>'') \<in> set (printDailyReport pm d))"
    using printDailyReport_reachability [of pm d] printDailyReport_latency [of pm d]
    unfolding Fields_dailyEmbed_0 Fields_dailyEmbed_1 Fields_dailyEmbed_2
    by simp
  have fail: "(unreachableTimes pm = [] \<longrightarrow> length (Fields (dailyEmbed pm d t)) = 3) \<and>
       (unreachableTimes pm \<noteq> [] \<longrightarrow>
          length (Fields (dailyEmbed pm d t)) = 4 \<and>
          Value (Fields (dailyEmbed pm d t) ! 3) = formatUnreachablePeriods pm \<and>
          ((\<forall>t\<in>set (unreachableTimes pm). wf_time t) \<and> length (unreachableTimes pm) < 2 ^ 63 \<longrightarrow>
             formatUnreachablePeriods pm = join (failureLines (unreachableTimes pm)) ''\<newline>'') \<and>
          (\<forall>l\<in>set (failureLines (unreachableTimes pm)). Print (''  '' @ l @ ''\<newline>'') \<in> set (printDailyReport pm d)))"
    using printDailyReport_failures [of pm d] Fields_dailyEmbed_3 [of pm d t]
      Fields_dailyEmbed_length [of pm d t] formatUnreachablePeriods_exact [of pm]
    by auto
  show ?thesis
    unfolding Let_def
    using old z fail printDailyReport_lines [of pm d] by (intro conjI) (elim conjE, assumption)+
qed

theorem renderings_agree_witness:
  "pingResults ex_pm_spec \<noteq> [] \<and> unreachableTimes ex_pm_spec \<noteq> [] \<and>
   list_all wf_time (unreachableTimes ex_pm_spec) \<and>
   Value (Fields (dailyEmbed ex_pm_spec ''2024-01-01'' ex_clock2) ! 0) =
     ''**'' @ ja_average @ ''**: 20.0ms\<newline>**'' @ ja_maximum @ ''**: 30.0ms\<newline>**'' @
     ja_minimum @ ''**: 10.0ms'' \<and>
   Print (''  '' @ ja_average @ '': 20.0ms\<newline>'') \<in> set (printDailyReport ex_pm_spec ''2024-01-01'') \<and>
   Print (''  '' @ ja_maximum @ '': 30.0ms\<newline>'') \<in> set (printDailyReport ex_pm_spec ''2024-01-01'') \<and>
   Print (''  '' @ ja_minimum @ '': 10.0ms\<newline>'') \<in> set (printDailyReport ex_pm_spec ''2024-01-01'') \<and>
   Value (Fields (dailyEmbed ex_pm_spec ''2024-01-01'' ex_clock2) ! 1) =
     ''**'' @ ja_success_rate @ ''**: 75.00%\<newline>**'' @ ja_success_count @ ''**: 3\<newline>**'' @
     ja_failure_count @ ''**: 1'' \<and>
   Print (''  '' @ ja_success_rate @ '': 75.00%\<newline>'') \<in> set (printDailyReport ex_pm_spec ''2024-01-01'') \<and>
   Print (''  '' @ ja_total @ ''ping'' @ ja_count @ '': 4\<newline>'') \<in> set (printDailyReport ex_pm_spec ''2024-01-01'') \<and>
   Value (Fields (dailyEmbed ex_pm_spec ''2024-01-01'' ex_clock2) ! 3) = ''23:59:59'' \<and>
   Print ''  23:59:59\<newline>'' \<in> set (printDailyReport ex_pm_spec ''2024-01-01'') \<and>
   length (printDailyReport ex_pm_spec ''2024-01-01'') = 17 \<and>
   pingResults ex_pm = [] \<and> unreachableTimes ex_pm = [] \<and>
   Value (Fields (dailyEmbed ex_pm ''2024-01-01'' ex_clock2) ! 0) =
     ''**'' @ ja_average @ ''**: 0.0ms\<newline>**'' @ ja_maximum @ ''**: 0.0ms\<newline>**'' @
     ja_minimum @ ''**: 0.0ms'' \<and>
   length (Fields (dailyEmbed ex_pm ''2024-01-01'' ex_clock2)) = 3 \<and>
   length (printDailyReport ex_pm ''2024-01-01'') = 11"
proof -
  have h: "pingResults ex_pm_spec \<noteq> []" "unreachableTimes ex_pm_spec \<noteq> []"
    by (simp_all add: ex_pm_spec_def ex_pm_def)
  have e: "pingResults ex_pm = []" "unreachableTimes ex_pm = []"
    by (simp_all add: ex_pm_def)
  have l: "length (unreachableTimes ex_pm_spec) = 1" "length (pingResults ex_pm_spec) = 3"
    by (simp_all add: ex_pm_spec_def ex_pm_def)
  have w: "list_all wf_time (unreachableTimes ex_pm_spec)"
    by code_simp
  have r: "reportStats ex_pm_spec = (20, 30, 10)" "successRate ex_pm_spec = 75"
    "totalPings ex_pm_spec = 4" "failureLines (unreachableTimes ex_pm_spec) = [''23:59:59'']"
    by code_simp+
  have f: "fmtFixed 1 20 = ''20.0''" "fmtFixed 1 30 = ''30.0''" "fmtFixed 1 10 = ''10.0''"
    "fmtFixed 2 75 = ''75.00''" "fmtD (int 3) = ''3''" "fmtD (int 1) = ''1''" "fmtD 4 = ''4''"
    "formatUnreachablePeriods ex_pm_spec = ''23:59:59''"
    by code_simp+
  note t = renderings_agree [of ex_pm_spec "''2024-01-01''" ex_clock2,
      unfolded Let_def r l fst_conv snd_conv f]
  note t0 = renderings_agree [of ex_pm "''2024-01-01''" ex_clock2, unfolded Let_def]
  have a: "pingResults ex_pm_spec \<noteq> [] \<and> unreachableTimes ex_pm_spec \<noteq> [] \<and>
   list_all wf_time (unreachableTimes ex_pm_spec) \<and>
   Value (Fields (dailyEmbed ex_pm_spec ''2024-01-01'' ex_clock2) ! 0) =
     ''**'' @ ja_average @ ''**: 20.0ms\<newline>**'' @ ja_maximum @ ''**: 30.0ms\<newline>**'' @
     ja_minimum @ ''**: 10.0ms'' \<and>
   Print (''  '' @ ja_average @ '': 20.0ms\<newline>'') \<in> set (printDailyReport ex_pm_spec ''2024-01-01'') \<and>
   Print (''  '' @ ja_maximum @ '': 30.0ms\<newline>'') \<in> set (printDailyReport ex_pm_spec ''2024-01-01'') \<and>
   Print (''  '' @ ja_minimum @ '': 10.0ms\<newline>'') \<in> set (printDailyReport ex_pm_spec ''2024-01-01'') \<and>
   Value (Fields (dailyEmbed ex_pm_spec ''2024-01-01'' ex_clock2) ! 1) =
     ''**'' @ ja_success_rate @ ''**: 75.00%\<newline>**'' @ ja_success_count @ ''**: 3\<newline>**'' @
     ja_failure_count @ ''**: 1'' \<and>
   Print (''  '' @ ja_success_rate @ '': 75.00%\<newline>'') \<in> set (printDailyReport ex_pm_spec ''2024-01-01'') \<and>
   Print (''  '' @ ja_total @ ''ping'' @ ja_count @ '': 4\<newline>'') \<in> set (printDailyReport ex_pm_spec ''2024-01-01'') \<and>
   Value (Fields (dailyEmbed ex_pm_spec ''2024-01-01'' ex_clock2) ! 3) = ''23:59:59'' \<and>
   Print ''  23:59:59\<newline>'' \<in> set (printDailyReport ex_pm_spec ''2024-01-01'')"
    using h w t by (simp add: list_all_iff)
  have n: "length (printDailyReport ex_pm_spec ''2024-01-01'') = 17"
  proof -
    from t have c: "printDailyReport ex_pm_spec ''2024-01-01'' =
         [Print (''\<newline>'' @ repeat ''='' 50 @ ''\<newline>''),
          Print (emoji_bar_chart @ '' Ping Monitor '' @ ja_daily_report @ '' - '' @ ''2024-01-01'' @ ''\<newline>''),
          Print (repeat ''='' 50 @ ''\<newline>''),
          Print (ja_target @ '': Google (8.8.8.8)\<newline>''),
          Print (ja_source @ '': '' @ localIP ex_pm_spec @ ''\<newline>'')] @
         (if pingResults ex_pm_spec \<noteq> [] then
            [Print (''\<newline>'' @ emoji_bar_chart @ '' '' @ ja_response_time_stats @ '':\<newline>''),
             Print (''  '' @ ja_average @ '': '' @ ''20.0'' @ ''ms\<newline>''),
             Print (''  '' @ ja_maximum @ '': '' @ ''30.0'' @ ''ms\<newline>''),
             Print (''  '' @ ja_minimum @ '': '' @ ''10.0'' @ ''ms\<newline>'')]
          else []) @
         [Print (''\<newline>'' @ emoji_chart_up @ '' '' @ ja_reachability_stats @ '':\<newline>''),
          Print (''  '' @ ja_success_rate @ '': '' @ ''75.00'' @ ''%\<newline>''),
          Print (''  '' @ ja_success_count @ '': '' @ ''3'' @ ''\<newline>''),
          Print (''  '' @ ja_failure_count @ '': '' @ ''1'' @ ''\<newline>''),
          Print (''  '' @ ja_total @ ''ping'' @ ja_count @ '': '' @ ''4'' @ ''\<newline>'')] @
         (if unreachableTimes ex_pm_spec \<noteq> [] then
            Print (''\<newline>'' @ emoji_warning @ '' '' @ ja_unreachable_times @ '':\<newline>'') #
            map (\<lambda>l. Print (''  '' @ l @ ''\<newline>'')) [''23:59:59'']
          else []) @
         [Print (repeat ''='' 50 @ ''\<newline>\<newline>'')]"
      by (elim conjE)
    show ?thesis
      unfolding c using h by simp
  qed
  have b: "Value (Fields (dailyEmbed ex_pm ''2024-01-01'' ex_clock2) ! 0) =
     ''**'' @ ja_average @ ''**: 0.0ms\<newline>**'' @ ja_maximum @ ''**: 0.0ms\<newline>**'' @
     ja_minimum @ ''**: 0.0ms'' \<and>
   length (Fields (dailyEmbed ex_pm ''2024-01-01'' ex_clock2)) = 3"
    using e t0 by simp
  have n0: "length (printDailyReport ex_pm ''2024-01-01'') = 11"
    using e t0 by simp
  show ?thesis
    using a n e b n0 by (intro conjI) (elim conjE, assumption)+
qed

subsection \<open>C9: a failed probe\<close>

text \<open>
  C9. At a tick whose probe of the target fails, the loop body appends the tick's time,
  once, to the failure timestamps that the day change left, and leaves the success
  samples as they were; whatever the probe of the default gateway returns, the monitor
  after the tick is the same.
\<close>

theorem pingLoop_tick_failure_frame:
  "runErr (targetRun tk) = Some e \<Longrightarrow>
     (let pm1 = fst (snd (dayChange tk (pm, lastDay)));
          pm2 = fst (snd (pingLoop_tick goos tk (pm, lastDay)))
      in unreachableTimes pm2 = unreachableTimes pm1 @ [now tk] \<and>
         pingResults pm2 = pingResults pm1 \<and>
         (formatDate (now tk) = lastDay \<longrightarrow> pm1 = pm)) \<and>
     (\<forall>g. snd (pingLoop_tick goos (tk\<lparr>gatewayRun := g\<rparr>) (pm, lastDay)) =
          snd (pingLoop_tick goos tk (pm, lastDay)))"
proof -
  assume e: "runErr (targetRun tk) = Some e"
  have tick: "snd (pingLoop_tick goos t (pm, lastDay)) =
      (snd (probe goos t (fst (snd (dayChange t (pm, lastDay))))), snd (snd (dayChange t (pm, lastDay))))" for t
    by (simp add: pingLoop_tick_def split: prod.splits)
  have g: "snd (probe goos (tk\<lparr>gatewayRun := g\<rparr>) p) = snd (probe goos tk p)" for g p
    using e probe_failure [of "tk\<lparr>gatewayRun := g\<rparr>" e goos p] probe_failure [of tk e goos p] by simp
  have same: "formatDate (now tk) = lastDay \<Longrightarrow> fst (snd (dayChange tk (pm, lastDay))) = pm"
    by (simp add: dayChange_def)
  show ?thesis
    using e same by (simp add: tick g dayChange_gatewayRun probe_failure [OF e] Let_def)
qed

theorem pingLoop_tick_failure_frame_witness:
  "runErr (targetRun ex_tick2) = Some ''exit status 1'' \<and>
   formatDate (now ex_tick2) = ''2024-01-02'' \<and>
   unreachableTimes (fst (snd (pingLoop_tick ''linux'' ex_tick2 (ex_pm_failures_only, ''2024-01-02'')))) =
     [ex_clock1, ex_clock2] \<and>
   pingResults (fst (snd (pingLoop_tick ''linux'' ex_tick2 (ex_pm_failures_only, ''2024-01-02'')))) = [] \<and>
   snd (pingLoop_tick ''linux'' (ex_tick2\<lparr>gatewayRun := ex_run_unparsed\<rparr>) (ex_pm_failures_only, ''2024-01-02'')) =
     snd (pingLoop_tick ''linux'' ex_tick2 (ex_pm_failures_only, ''2024-01-02''))"
proof -
  have h: "runErr (targetRun ex_tick2) = Some ''exit status 1''"
    by (simp add: ex_tick2_def ex_run_failed_def)
  have d: "formatDate (now ex_tick2) = ''2024-01-02''"
    by code_simp
  have u: "unreachableTimes ex_pm_failures_only = [ex_clock1]" "pingResults ex_pm_failures_only = []"
    "now ex_tick2 = ex_clock2"
    by (simp_all add: ex_pm_failures_only_def ex_pm_def ex_tick2_def)
  show ?thesis
    using h d u pingLoop_tick_failure_frame [OF h, of ex_pm_failures_only "''2024-01-02''" "''linux''"]
    by (simp add: Let_def)
qed

subsection \<open>C10: the latency of a successful probe\<close>

text \<open>
  C10. When the ping command succeeds (its error is \<^verbatim>\<open>nil\<close>), \<open>pingHost\<close> returns no
  error. If no latency can be read from the output, the latency it returns is the measured
  duration of the command, in milliseconds. The latency of a successful probe is never
  negative, the elapsed time \<^verbatim>\<open>time.Since(start)\<close> being non-negative (it is read from the
  monotonic clock).
\<close>

theorem pingHost_success_latency:
  "runErr run = None \<Longrightarrow>
     snd (snd (pingHost goos host run)) = None \<and>
     (parseLatency goos (runOutput run) = None \<longrightarrow>
        fst (snd (pingHost goos host run)) = fdiv (float64_of_int (runDuration run)) 1000000) \<and>
     (0 \<le> runDuration run \<longrightarrow> 0 \<le> fst (snd (pingHost goos host run)))"
  by (auto simp: pingHost_def Let_def parseLatency_nonneg fdiv_nonneg float64_of_int_nonneg
      split: option.splits)

theorem pingHost_success_latency_witness:
  "runErr ex_run_unparsed = None \<and>
   parseLatency ''linux'' (runOutput ex_run_unparsed) = None \<and>
   0 \<le> runDuration ex_run_unparsed \<and>
   pingHost ''linux'' ''8.8.8.8'' ex_run_unparsed =
     ([Exec [''ping'', ''-c'', ''1'', ''-W'', ''3'', ''8.8.8.8'']], 12, None) \<and>
   (0::rat) \<le> fst (snd (pingHost ''linux'' ''8.8.8.8'' ex_run_unparsed))"
proof -
  have h: "runErr ex_run_unparsed = None"
    by (simp add: ex_run_unparsed_def)
  have p: "parseLatency ''linux'' (runOutput ex_run_unparsed) = None"
    by code_simp
  have d: "0 \<le> runDuration ex_run_unparsed"
    by (simp add: ex_run_unparsed_def)
  have v: "pingHost ''linux'' ''8.8.8.8'' ex_run_unparsed =
     ([Exec [''ping'', ''-c'', ''1'', ''-W'', ''3'', ''8.8.8.8'']], 12, None)"
    by code_simp
  show ?thesis
    using h p d v pingHost_success_latency [OF h, of "''linux''" "''8.8.8.8''"] by simp
qed

end
